theory Spec2Isabelle
  imports Complex_Main
begin

section \<open>Scam-Guard-AI: signal aggregation and risk scoring\<close>

text \<open>
  A shallow embedding of the scoring core of the backend:
  \<^item> \<^verbatim>\<open>backend/ai/risk_engine.py\<close> (class \<^verbatim>\<open>RiskEngine\<close>): the rule-based score and the
    explanation trail;
  \<^item> \<^verbatim>\<open>backend/ai/ml_model.py\<close> (class \<^verbatim>\<open>MLModel\<close>): feature normalisation, confidence and
    \<^verbatim>\<open>predict\<close>;
  \<^item> \<^verbatim>\<open>backend/main.py\<close>: the score combination of \<^verbatim>\<open>check_domain\<close> and
    \<^verbatim>\<open>determine_verdict\<close>.

  Python methods whose names start with an underscore keep their names without it
  (\<^verbatim>\<open>_calculate_ssl_score\<close> is \<open>calculate_ssl_score\<close>), since an Isabelle name starts with a
  letter.

  What the code takes from the Python runtime, and this repository does not define, is a
  parameter of the model:
  \<^item> the floating-point arithmetic. A float is a real number. The literals that the code
    returns or compares an input with (thresholds, confidences, defaults) are written as
    decimals. Where the code computes with floats, every rounding is explicit: an
    operation that rounds (\<^verbatim>\<open>+\<close>, \<^verbatim>\<open>*\<close>, \<^verbatim>\<open>/\<close>, the conversion of an \<^verbatim>\<open>int\<close>) is the exact
    operation followed by the rounding \<open>fl\<close> to the nearest double, and a literal operand
    is \<open>fl\<close> of its decimal; \<^verbatim>\<open>round(x, ndigits)\<close> and \<^verbatim>\<open>np.exp\<close> are functions of their own.
    Comparisons, \<^verbatim>\<open>min\<close>, \<^verbatim>\<open>max\<close>, \<^verbatim>\<open>abs\<close>, negation and a division of 0 to 4 by 4 are
    exact. Infinities and NaN are not modelled;
  \<^item> \<^verbatim>\<open>str.isdigit\<close> on one character, a table of the Unicode database.
\<close>

subsection \<open>The signal bundle\<close>

text \<open>
  The bundle is a dict of six dicts, one per collector. Each sub-record is modelled as a
  record of the keys the core reads, typed as the collectors in
  \<^verbatim>\<open>backend/services\<close> fill them; a field is \<open>None\<close> when the key is absent (for
  \<^verbatim>\<open>days_until_expiry\<close> also when the collector stored Python's \<^verbatim>\<open>None\<close>), and a sub-record
  is \<open>None\<close> when the bundle has no such key.

  The whois domain string is measured with \<^verbatim>\<open>len\<close> and scanned character by character,
  and it is the raw request string, which need not be ASCII: it is a list of Unicode code
  points. The other strings are only searched for ASCII words, joined and formatted; they
  are kept as their UTF-8 bytes, in which an ASCII word occurs exactly when it occurs in
  the string.
\<close>

type_synonym code_point = nat

record whois_rec =
  domain_age_days :: "int option"
  domain :: "code_point list option"

record ssl_rec =
  has_ssl :: "bool option"
  ssl_valid :: "bool option"
  days_until_expiry :: "int option"

record dns_rec =
  resolved :: "bool option"

record blacklist_rec =
  blacklist_hits :: "int option"
  blacklists :: "string list option"
  scam_pattern_detected :: "bool option"
  risk_indicators :: "string list option"

record hosting_rec =
  reputation_score :: "int option"
  hosting_provider :: "string option"

record content_rec =
  content_available :: "bool option"
  high_risk_keywords :: "string list option"
  medium_risk_keywords :: "string list option"
  has_forms :: "bool option"

record signal_bundle =
  whois :: "whois_rec option"
  ssl :: "ssl_rec option"
  dns :: "dns_rec option"
  blacklist :: "blacklist_rec option"
  hosting :: "hosting_rec option"
  content :: "content_rec option"

text \<open>\<^verbatim>\<open>d.get(key, default)\<close> on a field that may be absent.\<close>

fun get_or :: "'a \<Rightarrow> 'a option \<Rightarrow> 'a" where
  "get_or d None = d"
| "get_or d (Some v) = v"

text \<open>The empty dict \<^verbatim>\<open>{}\<close> at each sub-record type, and the empty bundle.\<close>

definition empty_whois :: whois_rec where
  "empty_whois = \<lparr>domain_age_days = None, domain = None\<rparr>"

definition empty_ssl :: ssl_rec where
  "empty_ssl = \<lparr>has_ssl = None, ssl_valid = None, days_until_expiry = None\<rparr>"

definition empty_dns :: dns_rec where
  "empty_dns = \<lparr>resolved = None\<rparr>"

definition empty_blacklist :: blacklist_rec where
  "empty_blacklist = \<lparr>blacklist_hits = None, blacklists = None,
     scam_pattern_detected = None, risk_indicators = None\<rparr>"

definition empty_hosting :: hosting_rec where
  "empty_hosting = \<lparr>reputation_score = None, hosting_provider = None\<rparr>"

definition empty_content :: content_rec where
  "empty_content = \<lparr>content_available = None, high_risk_keywords = None,
     medium_risk_keywords = None, has_forms = None\<rparr>"

definition empty_bundle :: signal_bundle where
  "empty_bundle = \<lparr>whois = None, ssl = None, dns = None, blacklist = None,
     hosting = None, content = None\<rparr>"

subsection \<open>Strings\<close>

text \<open>
  \<^verbatim>\<open>needle in haystack\<close> on byte strings, and the code points of an ASCII literal.
\<close>

definition code_points :: "string \<Rightarrow> code_point list" where
  "code_points s = map of_char s"

fun starts_with :: "string \<Rightarrow> string \<Rightarrow> bool" where
  "starts_with [] s = True"
| "starts_with (p # ps) [] = False"
| "starts_with (p # ps) (c # cs) = (p = c \<and> starts_with ps cs)"

fun str_contains :: "string \<Rightarrow> string \<Rightarrow> bool" where
  "str_contains n [] = (n = [])"
| "str_contains n (c # cs) = (starts_with n (c # cs) \<or> str_contains n cs)"

subsection \<open>RiskEngine: the rule table\<close>

text \<open>
  \<^verbatim>\<open>self.risk_rules\<close>. The age brackets are an ordered dict of
  \<^verbatim>\<open>(min_days, max_days, points)\<close>, walked in insertion order.
\<close>

definition max_score :: int where "max_score = 100"

definition rules_domain_age :: "(int \<times> int \<times> int) list" where
  "rules_domain_age = [(0, 7, 25), (8, 30, 20), (31, 90, 10), (91, 180, 5)]"

definition rule_no_ssl :: int where "rule_no_ssl = 15"
definition rule_invalid_ssl :: int where "rule_invalid_ssl = 10"
definition rule_expiring_soon :: int where "rule_expiring_soon = 5"
definition rule_per_hit :: int where "rule_per_hit = 30"
definition rule_bulletproof :: int where "rule_bulletproof = 20"
definition rule_low_reputation :: int where "rule_low_reputation = 10"
definition rule_high_risk_keywords :: int where "rule_high_risk_keywords = 15"
definition rule_medium_risk_keywords :: int where "rule_medium_risk_keywords = 5"
definition rule_phishing_forms :: int where "rule_phishing_forms = 10"
definition rule_no_resolution :: int where "rule_no_resolution = 20"
definition rule_suspicious_tld :: int where "rule_suspicious_tld = 10"
definition rule_long_domain :: int where "rule_long_domain = 5"
definition rule_many_numbers :: int where "rule_many_numbers = 5"
definition rule_homograph :: int where "rule_homograph = 15"

subsection \<open>RiskEngine: category scores\<close>

text \<open>
  \<^verbatim>\<open>_calculate_age_score\<close>: the first bracket with
  \<^verbatim>\<open>min_days <= domain_age_days <= max_days\<close> returns its points; otherwise 0.
\<close>

fun age_loop :: "(int \<times> int \<times> int) list \<Rightarrow> int \<Rightarrow> int" where
  "age_loop [] d = 0"
| "age_loop ((min_days, max_days, points) # rest) d =
     (if min_days \<le> d \<and> d \<le> max_days then points else age_loop rest d)"

definition calculate_age_score :: "int \<Rightarrow> int" where
  "calculate_age_score d = age_loop rules_domain_age d"

text \<open>
  \<^verbatim>\<open>_calculate_ssl_score\<close>. The last branch is
  \<^verbatim>\<open>if days_until_expiry and days_until_expiry < 30\<close>: the first conjunct is Python's
  truth value of the looked-up value, false for \<^verbatim>\<open>None\<close> and for the integer 0.
\<close>

definition calculate_ssl_score :: "ssl_rec \<Rightarrow> int" where
  "calculate_ssl_score s =
     (if \<not> get_or False (has_ssl s) then 0 + rule_no_ssl
      else if \<not> get_or False (ssl_valid s) then 0 + rule_invalid_ssl
      else (case days_until_expiry s of
              None \<Rightarrow> 0
            | Some d \<Rightarrow> if d \<noteq> 0 \<and> d < 30 then 0 + rule_expiring_soon else 0))"

text \<open>\<^verbatim>\<open>_calculate_blacklist_score\<close>: \<^verbatim>\<open>min(hits * per_hit, 50)\<close>.\<close>

definition calculate_blacklist_score :: "blacklist_rec \<Rightarrow> int" where
  "calculate_blacklist_score b =
     (let hits = get_or 0 (blacklist_hits b) in min (hits * rule_per_hit) 50)"

text \<open>\<^verbatim>\<open>_calculate_hosting_score\<close>.\<close>

definition calculate_hosting_score :: "hosting_rec \<Rightarrow> int" where
  "calculate_hosting_score h =
     (let rep_score = get_or 50 (reputation_score h) in
      if rep_score < 30 then 0 + rule_bulletproof
      else if rep_score < 50 then 0 + rule_low_reputation
      else 0)"

text \<open>\<^verbatim>\<open>_calculate_content_score\<close>: three independent additions to \<^verbatim>\<open>score\<close>.\<close>

definition calculate_content_score :: "content_rec \<Rightarrow> int" where
  "calculate_content_score c =
     (let high_risk = length (get_or [] (high_risk_keywords c));
          score1 = (if high_risk > 0 then 0 + rule_high_risk_keywords else 0);
          medium_risk = length (get_or [] (medium_risk_keywords c));
          score2 = (if medium_risk > 2 then score1 + rule_medium_risk_keywords else score1);
          score3 = (if get_or False (has_forms c) \<and> (high_risk > 0 \<or> medium_risk > 0)
                    then score2 + rule_phishing_forms else score2)
      in score3)"

text \<open>\<^verbatim>\<open>_calculate_dns_score\<close>.\<close>

definition calculate_dns_score :: "dns_rec \<Rightarrow> int" where
  "calculate_dns_score d = (if \<not> get_or False (resolved d) then rule_no_resolution else 0)"

text \<open>
  \<^verbatim>\<open>_calculate_pattern_score\<close>. The loop over the risk indicators is an
  \<^verbatim>\<open>if 'TLD' in indicator: ... elif 'homograph' in indicator: ...\<close> that adds to the running
  score; then the two checks on the whois domain string: \<^verbatim>\<open>len(domain) > 30\<close> and
  \<^verbatim>\<open>sum(c.isdigit() for c in domain) > 5\<close>. The parameter \<open>isdigit\<close> is \<^verbatim>\<open>str.isdigit\<close> on a
  character, given by its code point.
\<close>

fun indicator_loop :: "string list \<Rightarrow> int \<Rightarrow> int" where
  "indicator_loop [] score = score"
| "indicator_loop (indicator # rest) score =
     (if str_contains ''TLD'' indicator then indicator_loop rest (score + rule_suspicious_tld)
      else if str_contains ''homograph'' indicator then indicator_loop rest (score + rule_homograph)
      else indicator_loop rest score)"

definition digit_count :: "(code_point \<Rightarrow> bool) \<Rightarrow> code_point list \<Rightarrow> nat" where
  "digit_count isdigit s = length (filter isdigit s)"

definition calculate_pattern_score :: "(code_point \<Rightarrow> bool) \<Rightarrow> signal_bundle \<Rightarrow> int" where
  "calculate_pattern_score isdigit signals =
     (let bl = get_or empty_blacklist (blacklist signals);
          indicators = get_or [] (risk_indicators bl);
          score1 = indicator_loop indicators 0;
          w = get_or empty_whois (whois signals);
          dom = get_or [] (domain w);
          score2 = (if length dom > 30 then score1 + rule_long_domain else score1);
          score3 = (if digit_count isdigit dom > 5 then score2 + rule_many_numbers else score2)
      in score3)"

subsection \<open>RiskEngine.calculate\_risk\_score\<close>

text \<open>
  The seven category scores are added to \<^verbatim>\<open>total_score\<close> and the total is capped with
  \<^verbatim>\<open>min(total_score, self.max_score)\<close>. On a bundle of the types above no operation of the
  body raises, so the \<^verbatim>\<open>except\<close> branch (which returns 50.0) is not reached.
\<close>

definition age_points :: "signal_bundle \<Rightarrow> int" where
  "age_points signals =
     calculate_age_score (get_or 0 (domain_age_days (get_or empty_whois (whois signals))))"

definition total_score :: "(code_point \<Rightarrow> bool) \<Rightarrow> signal_bundle \<Rightarrow> int" where
  "total_score isdigit signals =
     0 + age_points signals
       + calculate_ssl_score (get_or empty_ssl (ssl signals))
       + calculate_blacklist_score (get_or empty_blacklist (blacklist signals))
       + calculate_hosting_score (get_or empty_hosting (hosting signals))
       + calculate_content_score (get_or empty_content (content signals))
       + calculate_dns_score (get_or empty_dns (dns signals))
       + calculate_pattern_score isdigit signals"

definition calculate_risk_score :: "(code_point \<Rightarrow> bool) \<Rightarrow> signal_bundle \<Rightarrow> int" where
  "calculate_risk_score isdigit signals = min (total_score isdigit signals) max_score"

subsection \<open>RiskEngine.generate\_explanations\<close>

text \<open>
  The message literals start with emoji; they are kept as their UTF-8 bytes. Formatting an
  integer in an f-string gives its decimal digits.
\<close>

definition emoji_siren :: string where
  "emoji_siren = [CHR 0xF0, CHR 0x9F, CHR 0x9A, CHR 0xA8]"

definition emoji_warning :: string where
  "emoji_warning = [CHR 0xE2, CHR 0x9A, CHR 0xA0, CHR 0xEF, CHR 0xB8, CHR 0x8F]"

definition emoji_check :: string where
  "emoji_check = [CHR 0xE2, CHR 0x9C, CHR 0x85]"

definition emoji_info :: string where
  "emoji_info = [CHR 0xE2, CHR 0x84, CHR 0xB9, CHR 0xEF, CHR 0xB8, CHR 0x8F]"

definition apostrophe :: string where
  "apostrophe = [CHR 0x27]"

fun str_of_nat :: "nat \<Rightarrow> string" where
  "str_of_nat n =
     (if n < 10 then [char_of (48 + n)]
      else str_of_nat (n div 10) @ [char_of (48 + n mod 10)])"

declare str_of_nat.simps [simp del]

definition str_of_int :: "int \<Rightarrow> string" where
  "str_of_int i = (if i < 0 then ''-'' @ str_of_nat (nat (- i)) else str_of_nat (nat i))"

text \<open>\<^verbatim>\<open>sep.join(xs)\<close>.\<close>

fun join :: "string \<Rightarrow> string list \<Rightarrow> string" where
  "join sep [] = []"
| "join sep [x] = x"
| "join sep (x # y # ys) = x @ sep @ join sep (y # ys)"

text \<open>
  The body appends to \<^verbatim>\<open>explanations\<close> category by category; each definition below is
  the list of lines one category appends, in the order of the source.
\<close>

definition age_lines :: "int \<Rightarrow> string list" where
  "age_lines d =
     (if d < 7 then
        [emoji_siren @ '' CRITICAL: Domain is extremely new (less than 1 week old)'']
      else if d < 30 then
        [emoji_warning @ '' HIGH RISK: Domain is very new (less than 1 month old)'']
      else if d < 90 then
        [emoji_warning @ '' MEDIUM: Domain is relatively new (less than 3 months old)'']
      else if d > 365 then
        [emoji_check @ '' POSITIVE: Domain is well-established (over 1 year old)'']
      else [])"

definition ssl_lines :: "ssl_rec \<Rightarrow> string list" where
  "ssl_lines s =
     (if \<not> get_or False (has_ssl s) then
        [emoji_siren @ '' CRITICAL: No HTTPS/SSL certificate detected'']
      else if \<not> get_or False (ssl_valid s) then
        [emoji_warning @ '' HIGH RISK: SSL certificate is invalid or expired'']
      else (case days_until_expiry s of
              None \<Rightarrow> [emoji_check @ '' POSITIVE: Valid SSL certificate detected'']
            | Some d \<Rightarrow>
                if d \<noteq> 0 \<and> d < 30 then
                  [emoji_warning @ '' WARNING: SSL certificate expiring soon'']
                else [emoji_check @ '' POSITIVE: Valid SSL certificate detected'']))"

text \<open>
  Each entry of \<^verbatim>\<open>blacklists\<close> is a dict of which the body reads the key
  \<^verbatim>\<open>'blacklist'\<close> only; the field holds these names. \<^verbatim>\<open>bl_names[:3]\<close> is \<open>take 3\<close>.
\<close>

definition blacklist_lines :: "blacklist_rec \<Rightarrow> string list" where
  "blacklist_lines b =
     (let hits = get_or 0 (blacklist_hits b) in
      if hits > 0 then
        [emoji_siren @ '' CRITICAL: Found on '' @ str_of_int hits @ '' security blacklist(s)'']
        @ (if get_or [] (blacklists b) \<noteq> [] then
             (let bl_names = get_or [] (blacklists b) in
              [''   Blacklists: '' @ join '', '' (take 3 bl_names)])
           else [])
      else [])"

definition scam_pattern_lines :: "blacklist_rec \<Rightarrow> string list" where
  "scam_pattern_lines b =
     (if get_or False (scam_pattern_detected b) then
        [emoji_warning @ '' HIGH RISK: Domain name contains scam-related keywords'']
      else [])"

definition indicator_lines :: "blacklist_rec \<Rightarrow> string list" where
  "indicator_lines b =
     map (\<lambda>indicator. emoji_warning @ '' WARNING: '' @ indicator)
       (get_or [] (risk_indicators b))"

definition hosting_lines :: "hosting_rec \<Rightarrow> string list" where
  "hosting_lines h =
     (let rep_score = get_or 50 (reputation_score h) in
      if rep_score < 40 then
        [emoji_warning @ '' MEDIUM: Hosted on service with low reputation score'']
      else if rep_score > 70 then
        [emoji_check @ '' POSITIVE: Hosted by reputable provider (''
           @ get_or ''Unknown'' (hosting_provider h) @ '')'']
      else [])"

definition content_lines :: "content_rec \<Rightarrow> string list" where
  "content_lines c =
     (if get_or False (content_available c) then
        (let high_risk = get_or [] (high_risk_keywords c);
             medium_risk = get_or [] (medium_risk_keywords c) in
         (if high_risk \<noteq> [] then
            [emoji_siren @ '' HIGH RISK: Found '' @ str_of_nat (length high_risk)
               @ '' high-risk scam keywords in content'']
            @ (if take 2 high_risk \<noteq> [] then
                 [''   Examples: '' @ apostrophe @ high_risk ! 0 @ apostrophe @ '', ''
                    @ apostrophe @ (if length high_risk > 1 then high_risk ! 1 else [])
                    @ apostrophe]
               else [])
          else [])
         @ (if medium_risk \<noteq> [] then
              [emoji_warning @ '' MEDIUM: Found '' @ str_of_nat (length medium_risk)
                 @ '' marketing-related keywords'']
            else [])
         @ (if get_or False (has_forms c) \<and> (high_risk \<noteq> [] \<or> medium_risk \<noteq> []) then
              [emoji_warning
                 @ '' WARNING: Site contains forms and suspicious keywords (possible phishing)'']
            else []))
      else [])"

definition dns_lines :: "dns_rec \<Rightarrow> string list" where
  "dns_lines d =
     (if \<not> get_or False (resolved d) then
        [emoji_siren @ '' CRITICAL: Domain does not resolve to an IP address'']
      else [])"

definition category_lines :: "signal_bundle \<Rightarrow> string list" where
  "category_lines signals =
     age_lines (get_or 0 (domain_age_days (get_or empty_whois (whois signals))))
     @ ssl_lines (get_or empty_ssl (ssl signals))
     @ blacklist_lines (get_or empty_blacklist (blacklist signals))
     @ scam_pattern_lines (get_or empty_blacklist (blacklist signals))
     @ indicator_lines (get_or empty_blacklist (blacklist signals))
     @ hosting_lines (get_or empty_hosting (hosting signals))
     @ content_lines (get_or empty_content (content signals))
     @ dns_lines (get_or empty_dns (dns signals))"

definition scam_banner :: string where
  "scam_banner =
     emoji_siren @ '' VERDICT: This domain shows multiple indicators of being a SCAM''"

definition suspicious_banner :: string where
  "suspicious_banner =
     emoji_warning @ '' VERDICT: This domain is SUSPICIOUS - exercise caution''"

definition safe_banner :: string where
  "safe_banner =
     emoji_check @ '' VERDICT: This domain appears relatively SAFE based on available data''"

definition disclaimer :: string where
  "disclaimer =
     emoji_info
     @ '' Note: This analysis is based on automated checks. Always exercise caution online.''"

definition verdict_banner :: "real \<Rightarrow> string" where
  "verdict_banner risk_score =
     (if risk_score \<ge> 70 then scam_banner
      else if risk_score \<ge> 40 then suspicious_banner
      else safe_banner)"

text \<open>
  \<^verbatim>\<open>explanations.insert(0, banner)\<close>, then the two \<^verbatim>\<open>append\<close>s. On a bundle of the types
  above the body does not raise, so the \<^verbatim>\<open>except\<close> branch is not reached.
\<close>

definition generate_explanations :: "signal_bundle \<Rightarrow> real \<Rightarrow> string list" where
  "generate_explanations signals risk_score =
     (let explanations = category_lines signals;
          explanations = verdict_banner risk_score # explanations;
          explanations = explanations @ [''''];
          explanations = explanations @ [disclaimer]
      in explanations)"

subsection \<open>The floating-point runtime\<close>

text \<open>
  The three functions the model takes from the runtime: \<open>fl\<close> rounds a real number to the
  nearest double (IEEE 754 addition, multiplication and division, Python's true division
  of two ints and its conversion of an int to a float are all the exact result rounded by
  it); \<open>round_digits x n\<close> is \<^verbatim>\<open>round(x, n)\<close> as the runtime applies it to the float at
  hand (a numpy float has numpy's rounding, a Python float the built-in one);
  \<open>np_exp\<close> is \<^verbatim>\<open>np.exp\<close>.
\<close>

record runtime =
  fl :: "real \<Rightarrow> real"
  round_digits :: "real \<Rightarrow> nat \<Rightarrow> real"
  np_exp :: "real \<Rightarrow> real"

subsection \<open>main.py: the score combination and the verdict\<close>

text \<open>
  \<^verbatim>\<open>final_risk_score = (ml_prediction['risk_score'] * 0.6) + (rule_score * 0.4)\<close> in
  \<^verbatim>\<open>check_domain\<close>: two float products and a float sum. The rule score is an \<^verbatim>\<open>int\<close> of
  at most 100, or 50.0, and becomes a float without rounding.
\<close>

definition final_risk_score :: "runtime \<Rightarrow> real \<Rightarrow> real \<Rightarrow> real" where
  "final_risk_score rt ml_risk_score rule_score =
     fl rt (fl rt (ml_risk_score * fl rt 0.6) + fl rt (rule_score * fl rt 0.4))"

text \<open>\<^verbatim>\<open>determine_verdict\<close>: the blacklist override first, then the score thresholds.\<close>

definition determine_verdict :: "real \<Rightarrow> signal_bundle \<Rightarrow> string \<times> real" where
  "determine_verdict risk_score signals =
     (let hits = get_or 0 (blacklist_hits (get_or empty_blacklist (blacklist signals))) in
      if hits > 0 then (''LIKELY SCAM'', 0.95)
      else if risk_score \<ge> 70 then (''LIKELY SCAM'', 0.85)
      else if risk_score \<ge> 40 then (''SUSPICIOUS'', 0.75)
      else (''SAFE'', 0.80))"

text \<open>
  The part of \<^verbatim>\<open>check_domain\<close> after the collectors and the two scorers have run: the
  score, verdict and confidence fields of the \<^verbatim>\<open>DomainCheckResponse\<close>. The verdict is
  taken from the unrounded score; \<^verbatim>\<open>round(..., 2)\<close> is applied to the fields of the
  response only.
\<close>

record domain_check_response =
  resp_risk_score :: real
  resp_verdict :: string
  resp_confidence :: real

definition combine :: "runtime \<Rightarrow> real \<Rightarrow> real \<Rightarrow> signal_bundle \<Rightarrow> domain_check_response" where
  "combine rt ml_risk_score rule_score signals =
     (let final = final_risk_score rt ml_risk_score rule_score;
          (verdict, confidence) = determine_verdict final signals
      in \<lparr>resp_risk_score = round_digits rt final 2, resp_verdict = verdict,
          resp_confidence = round_digits rt confidence 2\<rparr>)"

subsection \<open>MLModel: feature values\<close>

text \<open>
  \<^verbatim>\<open>predict\<close> takes a dict of feature values and guards its whole body with
  \<^verbatim>\<open>except Exception\<close>, so the values are modelled dynamically: a feature may hold any of
  the Python values below. Arithmetic with a float and ordering against a number are
  defined on \<^verbatim>\<open>bool\<close>, \<^verbatim>\<open>int\<close> and \<^verbatim>\<open>float\<close> (\<^verbatim>\<open>True\<close> counts as 1) and raise
  \<^verbatim>\<open>TypeError\<close> on \<^verbatim>\<open>None\<close>, strings and lists; \<^verbatim>\<open>==\<close>, \<^verbatim>\<open>!=\<close> and \<^verbatim>\<open>in\<close> never raise.
  Arithmetic of an \<^verbatim>\<open>int\<close> with a float converts the \<^verbatim>\<open>int\<close> first and raises
  \<^verbatim>\<open>OverflowError\<close> when it is too large for a double; the comparison of an \<^verbatim>\<open>int\<close> with a
  float is exact and does not raise.
\<close>

datatype pyval = PNone | PBool bool | PInt int | PFloat real | PStr string | PList "pyval list"

datatype py_error = TypeError | OverflowError

type_synonym feature_dict = "string \<rightharpoonup> pyval"

fun as_real :: "pyval \<Rightarrow> real option" where
  "as_real (PBool b) = Some (if b then 1 else 0)"
| "as_real (PInt i) = Some (of_int i)"
| "as_real (PFloat r) = Some r"
| "as_real v = None"

text \<open>Sequencing of steps that may raise: the first error ends the \<^verbatim>\<open>try\<close> body.\<close>

fun and_then :: "py_error + 'a \<Rightarrow> ('a \<Rightarrow> py_error + 'b) \<Rightarrow> py_error + 'b" where
  "and_then (Inl e) f = Inl e"
| "and_then (Inr v) f = f v"

text \<open>
  The least magnitude that no longer rounds to a finite double: the midpoint between the
  largest double, \<open>2 ^ 1024 - 2 ^ 971\<close>, and \<open>2 ^ 1024\<close>. Python raises
  \<^verbatim>\<open>OverflowError\<close> from there on.
\<close>

definition float_limit :: real where
  "float_limit = 2 ^ 1024 - 2 ^ 970"

text \<open>The conversion of an operand to a float, as in \<^verbatim>\<open>x / 5.0\<close> and \<^verbatim>\<open>x * weight\<close>.\<close>

fun to_float :: "runtime \<Rightarrow> pyval \<Rightarrow> py_error + real" where
  "to_float rt (PBool b) = Inr (if b then 1 else 0)"
| "to_float rt (PInt n) =
     (if float_limit \<le> \<bar>of_int n\<bar> then Inl OverflowError else Inr (fl rt (of_int n)))"
| "to_float rt (PFloat r) = Inr r"
| "to_float rt v = Inl TypeError"

text \<open>
  \<^verbatim>\<open>x / c\<close> for a float constant \<open>c\<close> (5.0, 100.0, 50.0 and 10.0 are doubles), and
  \<^verbatim>\<open>x * w\<close> for a float literal \<open>w\<close>.
\<close>

definition py_truediv :: "runtime \<Rightarrow> pyval \<Rightarrow> real \<Rightarrow> py_error + real" where
  "py_truediv rt x c = and_then (to_float rt x) (\<lambda>r. Inr (fl rt (r / c)))"

definition py_mul :: "runtime \<Rightarrow> pyval \<Rightarrow> real \<Rightarrow> py_error + real" where
  "py_mul rt x w = and_then (to_float rt x) (\<lambda>r. Inr (fl rt (r * fl rt w)))"

text \<open>
  \<^verbatim>\<open>x / c\<close> for a non-zero \<^verbatim>\<open>int\<close> constant \<open>c\<close>. Of two ints Python takes the quotient, not
  the operands, to a float, and raises \<^verbatim>\<open>OverflowError\<close> when the quotient is too large.
\<close>

fun py_truediv_int :: "runtime \<Rightarrow> pyval \<Rightarrow> int \<Rightarrow> py_error + real" where
  "py_truediv_int rt (PBool b) c = Inr (fl rt ((if b then 1 else 0) / of_int c))"
| "py_truediv_int rt (PInt n) c =
     (if float_limit \<le> \<bar>of_int n / of_int c\<bar> then Inl OverflowError
      else Inr (fl rt (of_int n / of_int c)))"
| "py_truediv_int rt (PFloat r) c = Inr (fl rt (r / of_int c))"
| "py_truediv_int rt v c = Inl TypeError"

text \<open>\<^verbatim>\<open>x > c\<close> and \<^verbatim>\<open>x < c\<close> against a numeric constant.\<close>

definition py_gt :: "pyval \<Rightarrow> real \<Rightarrow> py_error + bool" where
  "py_gt x c = (case as_real x of None \<Rightarrow> Inl TypeError | Some r \<Rightarrow> Inr (r > c))"

definition py_lt :: "pyval \<Rightarrow> real \<Rightarrow> py_error + bool" where
  "py_lt x c = (case as_real x of None \<Rightarrow> Inl TypeError | Some r \<Rightarrow> Inr (r < c))"

text \<open>\<^verbatim>\<open>x == c\<close> against a numeric constant: false, not an error, on other values.\<close>

definition py_eq :: "pyval \<Rightarrow> real \<Rightarrow> bool" where
  "py_eq x c = (as_real x = Some c)"

subsection \<open>MLModel.\_normalize\_features\<close>

text \<open>
  Four features are divided by a scale and capped with \<^verbatim>\<open>min(..., 1.0)\<close>; the hosting
  reputation is divided by 100 with no cap; the four binary features and the content scam
  score are copied as they are. No feature is bounded from below. The scale of the age,
  \<^verbatim>\<open>365 * 3\<close>, is an \<^verbatim>\<open>int\<close>; the other scales are floats.
\<close>

definition normalize_features :: "runtime \<Rightarrow> feature_dict \<Rightarrow> py_error + feature_dict" where
  "normalize_features rt features =
     and_then (py_truediv_int rt (get_or (PInt 0) (features ''domain_age_days'')) (365 * 3))
       (\<lambda>domain_age.
     and_then (py_truediv rt (get_or (PInt 0) (features ''blacklist_count'')) 5.0)
       (\<lambda>blacklist_count.
     and_then (py_truediv rt (get_or (PInt 50) (features ''hosting_reputation_score'')) 100.0)
       (\<lambda>hosting_rep.
     and_then (py_truediv rt (get_or (PInt 0) (features ''domain_length'')) 50.0)
       (\<lambda>domain_length.
     and_then (py_truediv rt (get_or (PInt 0) (features ''content_risk_keywords'')) 10.0)
       (\<lambda>keyword_count.
     Inr (Map.empty
       (''domain_age_days'' \<mapsto> PFloat (min domain_age 1.0),
        ''has_https'' \<mapsto> get_or (PInt 0) (features ''has_https''),
        ''ssl_valid'' \<mapsto> get_or (PInt 0) (features ''ssl_valid''),
        ''dns_resolved'' \<mapsto> get_or (PInt 0) (features ''dns_resolved''),
        ''has_whois_privacy'' \<mapsto> get_or (PInt 0) (features ''has_whois_privacy''),
        ''blacklist_count'' \<mapsto> PFloat (min blacklist_count 1.0),
        ''hosting_reputation_score'' \<mapsto> PFloat hosting_rep,
        ''content_scam_score'' \<mapsto> get_or (PFloat 0.5) (features ''content_scam_score''),
        ''domain_length'' \<mapsto> PFloat (min domain_length 1.0),
        ''content_risk_keywords'' \<mapsto> PFloat (min keyword_count 1.0))))))))"

subsection \<open>MLModel: score, sigmoid, confidence and feature importance\<close>

definition feature_names :: "string list" where
  "feature_names = [''domain_age_days'', ''has_https'', ''ssl_valid'', ''blacklist_count'',
     ''hosting_reputation_score'', ''content_scam_score'', ''dns_resolved'',
     ''domain_length'', ''has_whois_privacy'', ''content_risk_keywords'']"

text \<open>\<^verbatim>\<open>self.weights\<close>, in insertion order, each weight by its decimal literal.\<close>

definition weights :: "(string \<times> real) list" where
  "weights = [(''domain_age_days'', - 0.05), (''has_https'', - 0.15), (''ssl_valid'', - 0.10),
     (''blacklist_count'', 0.30), (''hosting_reputation_score'', - 0.02),
     (''content_scam_score'', 0.40), (''dns_resolved'', - 0.10), (''domain_length'', 0.01),
     (''has_whois_privacy'', 0.05), (''content_risk_keywords'', 0.05)]"

text \<open>\<^verbatim>\<open>_calculate_score\<close>: \<^verbatim>\<open>score += feature_value * weight\<close> over the weight table.\<close>

fun score_loop ::
  "runtime \<Rightarrow> (string \<times> real) list \<Rightarrow> feature_dict \<Rightarrow> real \<Rightarrow> py_error + real" where
  "score_loop rt [] nf score = Inr score"
| "score_loop rt ((feature_name, weight) # rest) nf score =
     and_then (py_mul rt (get_or (PFloat 0.5) (nf feature_name)) weight)
       (\<lambda>contribution. score_loop rt rest nf (fl rt (score + contribution)))"

definition calculate_score :: "runtime \<Rightarrow> feature_dict \<Rightarrow> py_error + real" where
  "calculate_score rt nf = score_loop rt weights nf 0.0"

text \<open>
  \<^verbatim>\<open>_sigmoid\<close>: \<^verbatim>\<open>1 / (1 + np.exp(-scaled))\<close> with \<^verbatim>\<open>scaled = x * 5\<close>. On a float argument
  nothing in it raises (numpy warns on overflow and does not raise), so its own
  \<^verbatim>\<open>except\<close> branch is not reached.
\<close>

definition sigmoid :: "runtime \<Rightarrow> real \<Rightarrow> real" where
  "sigmoid rt x =
     (let scaled = fl rt (x * 5) in fl rt (1 / fl rt (1 + np_exp rt (- scaled))))"

text \<open>
  \<^verbatim>\<open>_calculate_confidence\<close>, first half: the count \<^verbatim>\<open>features_with_data\<close>. The four
  checks, in source order, are \<^verbatim>\<open>== 1\<close>, \<^verbatim>\<open>> 0\<close>, \<^verbatim>\<open>in [0, 1]\<close> and \<^verbatim>\<open>!= 0.5\<close>.
\<close>

definition features_with_data :: "feature_dict \<Rightarrow> py_error + nat" where
  "features_with_data nf =
     (let n1 = (if py_eq (get_or (PInt 0) (nf ''dns_resolved'')) 1 then 0 + 1 else 0) in
      and_then (py_gt (get_or (PInt 0) (nf ''domain_age_days'')) 0)
        (\<lambda>age_pos.
      let n2 = (if age_pos then n1 + 1 else n1);
          has_https = get_or (PInt 0) (nf ''has_https'');
          n3 = (if py_eq has_https 0 \<or> py_eq has_https 1 then n2 + 1 else n2);
          n4 = (if \<not> py_eq (get_or (PFloat 0.5) (nf ''content_scam_score'')) 0.5
                then n3 + 1 else n3)
      in Inr n4))"

text \<open>
  \<^verbatim>\<open>_calculate_confidence\<close>, second half: the base confidence, the two raises (the second
  condition is a short-circuit \<^verbatim>\<open>or\<close>) and the cap.
\<close>

definition calculate_confidence :: "feature_dict \<Rightarrow> py_error + real" where
  "calculate_confidence nf =
     and_then (features_with_data nf)
       (\<lambda>n.
     let base_confidence = real n / 4.0 in
     and_then (py_gt (get_or (PInt 0) (nf ''blacklist_count'')) 0)
       (\<lambda>hits_pos.
     let base_confidence = (if hits_pos then max base_confidence 0.9 else base_confidence);
         content_score = get_or (PFloat 0.5) (nf ''content_scam_score'') in
     and_then (py_gt content_score 0.7)
       (\<lambda>high.
     and_then (if high then Inr True else py_lt content_score 0.3)
       (\<lambda>strong.
     let base_confidence = (if strong then max base_confidence 0.8 else base_confidence)
     in Inr (min base_confidence 0.95)))))"

text \<open>
  \<^verbatim>\<open>_calculate_feature_importance\<close>: \<^verbatim>\<open>round(abs(value * weight), 3)\<close> per feature, then
  sorted by value, largest first; Python's sort is stable also under \<^verbatim>\<open>reverse=True\<close>.
\<close>

fun importance_loop ::
  "runtime \<Rightarrow> (string \<times> real) list \<Rightarrow> feature_dict \<Rightarrow> py_error + (string \<times> real) list" where
  "importance_loop rt [] nf = Inr []"
| "importance_loop rt ((feature_name, weight) # rest) nf =
     and_then (py_mul rt (get_or (PFloat 0.5) (nf feature_name)) weight)
       (\<lambda>product.
     and_then (importance_loop rt rest nf)
       (\<lambda>others. Inr ((feature_name, round_digits rt \<bar>product\<bar> 3) # others)))"

definition calculate_feature_importance ::
  "runtime \<Rightarrow> feature_dict \<Rightarrow> py_error + (string \<times> real) list" where
  "calculate_feature_importance rt nf =
     and_then (importance_loop rt weights nf)
       (\<lambda>importance. Inr (sort_key (\<lambda>x. - snd x) importance))"

subsection \<open>MLModel.predict\<close>

text \<open>
  The result dict: the keys \<^verbatim>\<open>model_version\<close> and \<^verbatim>\<open>error\<close> are each present in one of
  the two returns only. The \<^verbatim>\<open>error\<close> entry is \<^verbatim>\<open>str(e)\<close>; the model keeps the exception.
\<close>

record score_result =
  risk_score :: real
  probability :: real
  confidence :: real
  feature_importance :: "(string \<times> real) list"
  model_version :: "string option"
  error :: "py_error option"

text \<open>The body of the \<^verbatim>\<open>try\<close>.\<close>

definition predict_body :: "runtime \<Rightarrow> feature_dict \<Rightarrow> py_error + score_result" where
  "predict_body rt features =
     and_then (normalize_features rt features)
       (\<lambda>normalized_features.
     and_then (calculate_score rt normalized_features)
       (\<lambda>score.
     let probability = sigmoid rt score;
         risk_score = fl rt (probability * 100) in
     and_then (calculate_feature_importance rt normalized_features)
       (\<lambda>feature_importance.
     and_then (calculate_confidence normalized_features)
       (\<lambda>confidence.
     Inr \<lparr>risk_score = risk_score, probability = probability, confidence = confidence,
          feature_importance = feature_importance,
          model_version = Some ''1.0-simulated'', error = None\<rparr>))))"

text \<open>The return of the \<^verbatim>\<open>except Exception as e\<close> branch.\<close>

definition fallback :: "py_error \<Rightarrow> score_result" where
  "fallback e = \<lparr>risk_score = 50.0, probability = 0.5, confidence = 0.5,
     feature_importance = [], model_version = None, error = Some e\<rparr>"

text \<open>
  \<^verbatim>\<open>predict\<close>: what the caller gets, \<open>Inl\<close> if an exception left the method and \<open>Inr\<close> if it
  returned a dict.
\<close>

definition predict :: "runtime \<Rightarrow> feature_dict \<Rightarrow> py_error + score_result" where
  "predict rt features =
     (case predict_body rt features of
        Inr result \<Rightarrow> Inr result
      | Inl e \<Rightarrow> Inr (fallback e))"

subsection \<open>Readings of the specification and sample inputs\<close>

text \<open>The blacklist hit count as \<^verbatim>\<open>determine_verdict\<close> reads it from the bundle.\<close>

definition bundle_hits :: "signal_bundle \<Rightarrow> int" where
  "bundle_hits signals = get_or 0 (blacklist_hits (get_or empty_blacklist (blacklist signals)))"

text \<open>
  The pattern score as the specification words it: every indicator earns the TLD bonus
  and the homograph bonus independently of each other.
\<close>

definition pattern_score_spec :: "(code_point \<Rightarrow> bool) \<Rightarrow> signal_bundle \<Rightarrow> int" where
  "pattern_score_spec isdigit signals =
     (let indicators = get_or [] (risk_indicators (get_or empty_blacklist (blacklist signals)));
          dom = get_or [] (domain (get_or empty_whois (whois signals)))
      in sum_list (map (\<lambda>indicator.
             (if str_contains ''TLD'' indicator then 10 else 0)
           + (if str_contains ''homograph'' indicator then 15 else 0)) indicators)
         + (if length dom > 30 then 5 else 0)
         + (if digit_count isdigit dom > 5 then 5 else 0))"

text \<open>
  \<^verbatim>\<open>str.isdigit\<close> on the code points below 256: the ASCII digits and the superscripts
  two, three and one (U+00B2, U+00B3, U+00B9). The sample domains hold no code point from
  256 on.
\<close>

definition sample_isdigit :: "code_point \<Rightarrow> bool" where
  "sample_isdigit c = ((48 \<le> c \<and> c \<le> 57) \<or> c = 178 \<or> c = 179 \<or> c = 185)"

text \<open>
  The runtime of exact arithmetic, in which no operation rounds: the model at this
  runtime is the code read over the real numbers.
\<close>

definition exact_runtime :: runtime where
  "exact_runtime = \<lparr>fl = (\<lambda>x. x), round_digits = (\<lambda>x n. x), np_exp = exp\<rparr>"

text \<open>
  A runtime whose rounding has a relative error of at most \<open>u\<close>; for the doubles, without
  underflow, \<open>u\<close> is \<open>2 ^ 53\<close> inverted.
\<close>

definition relative_error :: "runtime \<Rightarrow> real \<Rightarrow> bool" where
  "relative_error rt u = (0 \<le> u \<and> (\<forall>x. \<bar>fl rt x - x\<bar> \<le> u * \<bar>x\<bar>))"

text \<open>A bundle with every sub-record filled, 100 blacklist hits among them.\<close>

definition sample_bundle :: signal_bundle where
  "sample_bundle = \<lparr>
     whois = Some \<lparr>domain_age_days = Some 3,
       domain = Some (code_points ''free-money-123456.xyz'')\<rparr>,
     ssl = Some \<lparr>has_ssl = Some False, ssl_valid = Some False, days_until_expiry = None\<rparr>,
     dns = Some \<lparr>resolved = Some False\<rparr>,
     blacklist = Some \<lparr>blacklist_hits = Some 100, blacklists = Some [''dbl.spamhaus.org''],
       scam_pattern_detected = Some True,
       risk_indicators = Some [''Domain uses commonly abused TLD'']\<rparr>,
     hosting = Some \<lparr>reputation_score = Some 50, hosting_provider = Some ''Unknown''\<rparr>,
     content = Some \<lparr>content_available = Some False, high_risk_keywords = Some [],
       medium_risk_keywords = Some [], has_forms = Some False\<rparr>\<rparr>"

text \<open>A bundle whose whois sub-record is present but has no \<^verbatim>\<open>domain_age_days\<close>.\<close>

definition ageless_bundle :: signal_bundle where
  "ageless_bundle = empty_bundle\<lparr>whois := Some \<lparr>domain_age_days = None,
     domain = Some (code_points ''example.com'')\<rparr>\<rparr>"

text \<open>A bundle with one blacklist hit and nothing else.\<close>

definition hit_bundle :: signal_bundle where
  "hit_bundle = empty_bundle\<lparr>blacklist := Some (empty_blacklist\<lparr>blacklist_hits := Some 1\<rparr>)\<rparr>"

text \<open>A bundle with a negative hit count, which no collector produces.\<close>

definition negative_hits_bundle :: signal_bundle where
  "negative_hits_bundle =
     empty_bundle\<lparr>blacklist := Some (empty_blacklist\<lparr>blacklist_hits := Some (- 10)\<rparr>)\<rparr>"

text \<open>A bundle with one risk indicator that mentions both a TLD and a homograph.\<close>

definition both_bundle :: signal_bundle where
  "both_bundle = empty_bundle\<lparr>blacklist := Some (empty_blacklist\<lparr>risk_indicators :=
     Some [''Abused TLD with non-ASCII characters (possible homograph attack)'']\<rparr>)\<rparr>"

text \<open>
  The bundle of the request \<^verbatim>\<open>a.co/\<close> followed by six superscript twos: the validator
  checks \<^verbatim>\<open>a.co\<close>, the whois collector stores the whole string.
\<close>

definition superscript_bundle :: signal_bundle where
  "superscript_bundle = empty_bundle\<lparr>whois := Some \<lparr>domain_age_days = Some 400,
     domain = Some (code_points ''a.co/'' @ replicate 6 178)\<rparr>\<rparr>"

text \<open>A valid certificate that expires within the next 24 hours.\<close>

definition expiring_today :: ssl_rec where
  "expiring_today = \<lparr>has_ssl = Some True, ssl_valid = Some True, days_until_expiry = Some 0\<rparr>"

text \<open>Whether a line of the trail is one of the three verdict banners.\<close>

definition is_banner :: "string \<Rightarrow> bool" where
  "is_banner line = (line = scam_banner \<or> line = suspicious_banner \<or> line = safe_banner)"

text \<open>A Python value that is a number in a range.\<close>

definition num_between :: "real \<Rightarrow> real \<Rightarrow> pyval \<Rightarrow> bool" where
  "num_between lo hi v = (case as_real v of None \<Rightarrow> False | Some r \<Rightarrow> lo \<le> r \<and> r \<le> hi)"

text \<open>All ten named features are present in the vector and lie in the unit interval.\<close>

definition all_in_unit :: "feature_dict \<Rightarrow> bool" where
  "all_in_unit nf =
     list_all (\<lambda>name. case nf name of None \<Rightarrow> False | Some v \<Rightarrow> num_between 0 1 v)
       feature_names"

text \<open>
  The raw features of a domain whose WHOIS creation date lies ahead of
  \<^verbatim>\<open>datetime.now()\<close> on the server, as for a registration of the last hours stamped in
  another time zone: \<^verbatim>\<open>(datetime.now() - creation_date).days\<close> is \<open>- 1\<close>. The dict has
  the ten keys that \<^verbatim>\<open>extract_features\<close> fills.
\<close>

definition future_dated_features :: feature_dict where
  "future_dated_features = Map.empty(''domain_age_days'' \<mapsto> PInt (- 1),
     ''has_https'' \<mapsto> PInt 1, ''ssl_valid'' \<mapsto> PInt 1, ''blacklist_count'' \<mapsto> PInt 0,
     ''hosting_reputation_score'' \<mapsto> PInt 50, ''content_scam_score'' \<mapsto> PFloat 0.5,
     ''dns_resolved'' \<mapsto> PInt 1, ''domain_length'' \<mapsto> PInt 11,
     ''has_whois_privacy'' \<mapsto> PInt 0, ''content_risk_keywords'' \<mapsto> PInt 0)"

text \<open>
  The confidence as the specification words it. \<open>feature nf name dflt\<close> is the number a
  vector holds under a name, \<open>None\<close> if the value is not a number; \<open>data_availability\<close>
  counts the four conditions; the confidence starts at a quarter of that count, is raised
  to at least 0.9 and to at least 0.8 under the two conditions, and is capped at 0.95.
\<close>

definition feature :: "feature_dict \<Rightarrow> string \<Rightarrow> pyval \<Rightarrow> real option" where
  "feature nf name dflt = as_real (get_or dflt (nf name))"

definition exceeds :: "real option \<Rightarrow> real \<Rightarrow> bool" where
  "exceeds v c = (case v of None \<Rightarrow> False | Some r \<Rightarrow> r > c)"

definition below :: "real option \<Rightarrow> real \<Rightarrow> bool" where
  "below v c = (case v of None \<Rightarrow> False | Some r \<Rightarrow> r < c)"

definition data_availability :: "feature_dict \<Rightarrow> nat" where
  "data_availability nf =
     (if feature nf ''dns_resolved'' (PInt 0) = Some 1 then 1 else 0)
     + (if exceeds (feature nf ''domain_age_days'' (PInt 0)) 0 then 1 else 0)
     + (if feature nf ''has_https'' (PInt 0) = Some 0 \<or> feature nf ''has_https'' (PInt 0) = Some 1
        then 1 else 0)
     + (if feature nf ''content_scam_score'' (PFloat 0.5) \<noteq> Some 0.5 then 1 else 0)"

definition confidence_spec :: "feature_dict \<Rightarrow> real" where
  "confidence_spec nf =
     (let start = real (data_availability nf) / 4;
          raised1 = (if exceeds (feature nf ''blacklist_count'' (PInt 0)) 0
                     then max start 0.9 else start);
          raised2 = (if exceeds (feature nf ''content_scam_score'' (PFloat 0.5)) 0.7
                        \<or> below (feature nf ''content_scam_score'' (PFloat 0.5)) 0.3
                     then max raised1 0.8 else raised1)
      in min raised2 0.95)"

text \<open>
  A vector whose age, blacklist count and content score are numbers (or absent): the three
  values \<^verbatim>\<open>_calculate_confidence\<close> compares with \<^verbatim>\<open>>\<close> and \<^verbatim>\<open><\<close>.
\<close>

definition numeric_vector :: "feature_dict \<Rightarrow> bool" where
  "numeric_vector nf =
     (feature nf ''domain_age_days'' (PInt 0) \<noteq> None
      \<and> feature nf ''blacklist_count'' (PInt 0) \<noteq> None
      \<and> feature nf ''content_scam_score'' (PFloat 0.5) \<noteq> None)"

definition sample_vector :: feature_dict where
  "sample_vector = Map.empty(''domain_age_days'' \<mapsto> PFloat 0.5, ''has_https'' \<mapsto> PInt 1,
     ''ssl_valid'' \<mapsto> PInt 1, ''dns_resolved'' \<mapsto> PInt 1, ''has_whois_privacy'' \<mapsto> PInt 0,
     ''blacklist_count'' \<mapsto> PFloat 0.2, ''hosting_reputation_score'' \<mapsto> PFloat 0.5,
     ''content_scam_score'' \<mapsto> PFloat 0.8, ''domain_length'' \<mapsto> PFloat 0.3,
     ''content_risk_keywords'' \<mapsto> PFloat 0.1)"

text \<open>
  The values Python takes to a float: a \<^verbatim>\<open>bool\<close>, a float, and an \<^verbatim>\<open>int\<close> below the
  overflow limit in magnitude. For the division of two ints the limit applies to the
  quotient.
\<close>

fun float_convertible :: "pyval \<Rightarrow> bool" where
  "float_convertible (PBool b) = True"
| "float_convertible (PInt n) = (\<bar>of_int n\<bar> < float_limit)"
| "float_convertible (PFloat r) = True"
| "float_convertible v = False"

fun quotient_convertible :: "pyval \<Rightarrow> int \<Rightarrow> bool" where
  "quotient_convertible (PBool b) c = True"
| "quotient_convertible (PInt n) c = (\<bar>of_int n / of_int c\<bar> < float_limit)"
| "quotient_convertible (PFloat r) c = True"
| "quotient_convertible v c = False"

text \<open>
  The raw feature dicts on which the body of \<^verbatim>\<open>predict\<close> runs through: each of the ten
  features, read with the default of \<^verbatim>\<open>_normalize_features\<close>, is a number that becomes a
  float.
\<close>

definition usable_features :: "feature_dict \<Rightarrow> bool" where
  "usable_features features =
     (quotient_convertible (get_or (PInt 0) (features ''domain_age_days'')) (365 * 3)
      \<and> float_convertible (get_or (PInt 0) (features ''has_https''))
      \<and> float_convertible (get_or (PInt 0) (features ''ssl_valid''))
      \<and> float_convertible (get_or (PInt 0) (features ''blacklist_count''))
      \<and> float_convertible (get_or (PInt 50) (features ''hosting_reputation_score''))
      \<and> float_convertible (get_or (PFloat 0.5) (features ''content_scam_score''))
      \<and> float_convertible (get_or (PInt 0) (features ''dns_resolved''))
      \<and> float_convertible (get_or (PInt 0) (features ''domain_length''))
      \<and> float_convertible (get_or (PInt 0) (features ''has_whois_privacy''))
      \<and> float_convertible (get_or (PInt 0) (features ''content_risk_keywords'')))"

text \<open>A raw feature dict with \<^verbatim>\<open>None\<close> for the age and a string for a binary feature.\<close>

definition malformed_features :: feature_dict where
  "malformed_features = Map.empty(''domain_age_days'' \<mapsto> PNone, ''has_https'' \<mapsto> PStr ''yes'')"

text \<open>A raw feature dict with a blacklist count of \<open>2 ^ 1024\<close>, too large for a float.\<close>

definition overflowing_features :: feature_dict where
  "overflowing_features = Map.empty(''blacklist_count'' \<mapsto> PInt (2 ^ 1024))"

text \<open>Every value a loop over a weight table looks up becomes a float.\<close>

definition weighted_convertible :: "(string \<times> real) list \<Rightarrow> feature_dict \<Rightarrow> bool" where
  "weighted_convertible ws nf =
     list_all (\<lambda>(name, w). float_convertible (get_or (PFloat 0.5) (nf name))) ws"

section \<open>Properties\<close>

lemmas rule_defs = max_score_def rules_domain_age_def rule_no_ssl_def rule_invalid_ssl_def
  rule_expiring_soon_def rule_per_hit_def rule_bulletproof_def rule_low_reputation_def
  rule_high_risk_keywords_def rule_medium_risk_keywords_def rule_phishing_forms_def
  rule_no_resolution_def rule_suspicious_tld_def rule_long_domain_def
  rule_many_numbers_def rule_homograph_def

lemmas empty_defs = empty_bundle_def empty_whois_def empty_ssl_def empty_dns_def
  empty_blacklist_def empty_hosting_def empty_content_def

subsection \<open>The category scores\<close>

lemma calculate_age_score_cases:
  "calculate_age_score d =
     (if 0 \<le> d \<and> d \<le> 7 then 25 else if 8 \<le> d \<and> d \<le> 30 then 20
      else if 31 \<le> d \<and> d \<le> 90 then 10 else if 91 \<le> d \<and> d \<le> 180 then 5 else 0)"
  by (simp add: calculate_age_score_def rules_domain_age_def)

lemma calculate_age_score_range: "0 \<le> calculate_age_score d \<and> calculate_age_score d \<le> 25"
  by (simp add: calculate_age_score_cases)

lemma calculate_ssl_score_range: "0 \<le> calculate_ssl_score s \<and> calculate_ssl_score s \<le> 15"
  by (simp add: calculate_ssl_score_def rule_defs split: option.split)

lemma calculate_hosting_score_range:
  "0 \<le> calculate_hosting_score h \<and> calculate_hosting_score h \<le> 20"
  by (simp add: calculate_hosting_score_def rule_defs Let_def)

lemma calculate_content_score_range:
  "0 \<le> calculate_content_score c \<and> calculate_content_score c \<le> 30"
  by (simp add: calculate_content_score_def rule_defs Let_def)

lemma calculate_dns_score_range: "0 \<le> calculate_dns_score d \<and> calculate_dns_score d \<le> 20"
  by (simp add: calculate_dns_score_def rule_defs)

lemma indicator_loop_mono: "score \<le> indicator_loop xs score"
proof (induction xs arbitrary: score)
  case Nil
  show ?case by simp
next
  case (Cons x xs)
  have a: "score \<le> score + rule_suspicious_tld" and b: "score \<le> score + rule_homograph"
    by (simp_all add: rule_defs)
  show ?case
    using Cons [of "score + rule_suspicious_tld"] Cons [of "score + rule_homograph"]
      Cons [of score] a b
    by auto
qed

lemma calculate_pattern_score_nonneg: "0 \<le> calculate_pattern_score isdigit s"
proof -
  have "0 \<le> indicator_loop xs 0" for xs
    by (rule indicator_loop_mono)
  then show ?thesis
    by (auto simp add: calculate_pattern_score_def Let_def rule_defs intro: add_nonneg_nonneg)
qed

lemma calculate_blacklist_score_eq:
  "calculate_blacklist_score b = min (get_or 0 (blacklist_hits b) * 30) 50"
  by (simp add: calculate_blacklist_score_def rule_defs)

lemma empty_bundle_scores:
  "age_points empty_bundle = 25"
  "calculate_ssl_score (get_or empty_ssl (ssl empty_bundle)) = 15"
  "calculate_blacklist_score (get_or empty_blacklist (blacklist empty_bundle)) = 0"
  "calculate_hosting_score (get_or empty_hosting (hosting empty_bundle)) = 0"
  "calculate_content_score (get_or empty_content (content empty_bundle)) = 0"
  "calculate_dns_score (get_or empty_dns (dns empty_bundle)) = 20"
  "calculate_pattern_score isdigit empty_bundle = 0"
  by (simp_all add: age_points_def calculate_age_score_cases calculate_ssl_score_def
      calculate_blacklist_score_def calculate_hosting_score_def calculate_content_score_def
      calculate_dns_score_def calculate_pattern_score_def digit_count_def empty_defs rule_defs)

subsection \<open>The rule score is within 0 and 100\<close>

text \<open>
  Claim C4. On every bundle whose blacklist hit count is not negative (the collector
  stores the length of a list there), \<open>calculate_risk_score\<close> returns a value between 0 and
  100: it is the sum of the seven category scores, capped at 100. The blacklist category
  score is \<open>min (hits * 30) 50\<close> for every hit count, so it is at most 50, and it is 50 for
  100 hits.
\<close>

theorem rule_score_in_range:
  assumes "0 \<le> bundle_hits signals"
  shows "0 \<le> calculate_risk_score isdigit signals
     \<and> calculate_risk_score isdigit signals \<le> 100
     \<and> calculate_risk_score isdigit signals = min (total_score isdigit signals) 100
     \<and> calculate_blacklist_score b = min (get_or 0 (blacklist_hits b) * 30) 50
     \<and> calculate_blacklist_score b \<le> 50
     \<and> calculate_blacklist_score (b\<lparr>blacklist_hits := Some 100\<rparr>) = 50"
proof -
  have bl: "0 \<le> calculate_blacklist_score (get_or empty_blacklist (blacklist signals))"
    using assms by (simp add: calculate_blacklist_score_eq bundle_hits_def)
  have "0 \<le> total_score isdigit signals"
    unfolding total_score_def age_points_def
    using bl calculate_age_score_range calculate_ssl_score_range calculate_hosting_score_range
      calculate_content_score_range calculate_dns_score_range calculate_pattern_score_nonneg
    by (intro add_nonneg_nonneg) simp_all
  then show ?thesis
    by (simp add: calculate_risk_score_def max_score_def calculate_blacklist_score_eq)
qed

text \<open>
  The sample bundle has 100 hits: its categories add up to 125, the score is capped at 100
  and the blacklist category gives 50.
\<close>

theorem rule_score_in_range_witness:
  "0 \<le> bundle_hits sample_bundle
   \<and> calculate_risk_score sample_isdigit sample_bundle = 100
   \<and> calculate_blacklist_score (get_or empty_blacklist (blacklist sample_bundle)) = 50"
proof -
  have h: "0 \<le> bundle_hits sample_bundle"
    by (simp add: sample_bundle_def bundle_hits_def)
  have t: "total_score sample_isdigit sample_bundle = 125"
    by (simp add: sample_bundle_def total_score_def age_points_def calculate_age_score_cases
       calculate_ssl_score_def calculate_blacklist_score_def calculate_hosting_score_def
       calculate_content_score_def calculate_dns_score_def calculate_pattern_score_def
       digit_count_def sample_isdigit_def code_points_def rule_defs)
  show ?thesis
    using h t rule_score_in_range [OF h, of sample_isdigit
        "get_or empty_blacklist (blacklist sample_bundle)"]
    by (simp add: sample_bundle_def)
qed

text \<open>
  The lower bound rests on the hit count: with \<open>- 10\<close> hits the blacklist category is
  \<open>- 300\<close> and the total is not lifted to 0.
\<close>

lemma rule_score_negative_hits: "calculate_risk_score isdigit negative_hits_bundle = - 240"
  by (simp add: negative_hits_bundle_def calculate_risk_score_def total_score_def age_points_def
      calculate_age_score_cases calculate_ssl_score_def calculate_blacklist_score_def
      calculate_hosting_score_def calculate_content_score_def calculate_dns_score_def
      calculate_pattern_score_def digit_count_def empty_defs rule_defs)

subsection \<open>The SSL category\<close>

text \<open>The four outcomes of \<open>calculate_ssl_score\<close>, in the order the code tests them.\<close>

lemma calculate_ssl_score_cases:
  "calculate_ssl_score s =
     (if \<not> get_or False (has_ssl s) then 15
      else if \<not> get_or False (ssl_valid s) then 10
      else if days_until_expiry s \<noteq> None \<and> days_until_expiry s \<noteq> Some 0
              \<and> the (days_until_expiry s) < 30 then 5
      else 0)"
  by (auto simp add: calculate_ssl_score_def rule_defs split: option.split)

text \<open>
  Claim C5. The claim gives a valid certificate with \<^verbatim>\<open>days_until_expiry = 0\<close> 5 points.
  The code gives it 0: the test \<^verbatim>\<open>days_until_expiry and days_until_expiry < 30\<close> is false
  for the integer 0 as it is for \<^verbatim>\<open>None\<close>, while a certificate with one day left, or one
  day past its expiry, scores 5.
\<close>

theorem ssl_score_expiring_today:
  "calculate_ssl_score expiring_today = 0
   \<and> calculate_ssl_score (expiring_today\<lparr>days_until_expiry := Some 1\<rparr>) = 5
   \<and> calculate_ssl_score (expiring_today\<lparr>days_until_expiry := Some (- 1)\<rparr>) = 5
   \<and> calculate_ssl_score (expiring_today\<lparr>days_until_expiry := None\<rparr>) = 0"
  by (simp add: calculate_ssl_score_def expiring_today_def rule_defs)

subsection \<open>The pattern category\<close>

text \<open>
  Claim C6, as stated, fails: an indicator that mentions both a TLD and a homograph earns
  10 points in the code, not 25, since the homograph test is the \<^verbatim>\<open>elif\<close> of the TLD test.
\<close>

theorem pattern_score_both_counterexample:
  "calculate_pattern_score sample_isdigit both_bundle = 10
   \<and> pattern_score_spec sample_isdigit both_bundle = 25
   \<and> calculate_pattern_score sample_isdigit both_bundle
       \<noteq> pattern_score_spec sample_isdigit both_bundle"
  by (simp add: calculate_pattern_score_def pattern_score_spec_def both_bundle_def empty_defs
      digit_count_def rule_defs)

lemma indicator_loop_sum:
  "indicator_loop xs score =
     score + sum_list (map (\<lambda>indicator.
       if str_contains ''TLD'' indicator then 10
       else if str_contains ''homograph'' indicator then 15 else 0) xs)"
  by (induction xs arbitrary: score) (simp_all add: rule_defs)

text \<open>
  Claim C6, amended. The pattern score is the sum over the risk indicators of 10 for an
  indicator that contains \<^verbatim>\<open>TLD\<close>, and otherwise 15 for one that contains
  \<^verbatim>\<open>homograph\<close>; plus 5 if the whois domain string is longer than 30 characters; plus 5
  if it contains more than 5 digits. A character is a Unicode code point and a digit is a
  character on which \<^verbatim>\<open>str.isdigit\<close> holds; the equation holds for every such table.
\<close>

theorem pattern_score_first_match:
  "calculate_pattern_score isdigit signals =
     sum_list (map (\<lambda>indicator.
         if str_contains ''TLD'' indicator then 10
         else if str_contains ''homograph'' indicator then 15 else 0)
       (get_or [] (risk_indicators (get_or empty_blacklist (blacklist signals)))))
     + (if length (get_or [] (domain (get_or empty_whois (whois signals)))) > 30 then 5 else 0)
     + (if digit_count isdigit (get_or [] (domain (get_or empty_whois (whois signals)))) > 5
        then 5 else 0)"
  by (simp add: calculate_pattern_score_def Let_def indicator_loop_sum rule_defs)

text \<open>
  Length and digits are those of the Python string, counted in characters with
  \<^verbatim>\<open>len\<close> and \<^verbatim>\<open>str.isdigit\<close>: the request \<^verbatim>\<open>a.co/\<close> followed by six superscript twos has
  11 characters, 6 of them digits, and scores 5.
\<close>

lemma pattern_score_superscripts:
  "length (get_or [] (domain (get_or empty_whois (whois superscript_bundle)))) = 11
   \<and> digit_count sample_isdigit
         (get_or [] (domain (get_or empty_whois (whois superscript_bundle)))) = 6
   \<and> calculate_pattern_score sample_isdigit superscript_bundle = 5"
  by (simp add: calculate_pattern_score_def superscript_bundle_def empty_defs digit_count_def
      sample_isdigit_def code_points_def rule_defs)

subsection \<open>A bundle without a domain age\<close>

text \<open>
  Claim C10. When the bundle has no whois sub-record, or the sub-record has no
  \<^verbatim>\<open>domain_age_days\<close>, the age is taken as 0 days and the age category gives 25 points. The
  empty bundle scores 25 for the age, 15 for the missing certificate and 20 for the
  unresolved DNS, 60 in all, which is in the suspicious band.
\<close>

theorem missing_age_is_critical:
  assumes "whois signals = None \<or> (\<exists>w. whois signals = Some w \<and> domain_age_days w = None)"
  shows "get_or 0 (domain_age_days (get_or empty_whois (whois signals))) = 0
     \<and> age_points signals = 25
     \<and> age_points empty_bundle = 25
     \<and> calculate_ssl_score (get_or empty_ssl (ssl empty_bundle)) = 15
     \<and> calculate_dns_score (get_or empty_dns (dns empty_bundle)) = 20
     \<and> calculate_risk_score isdigit empty_bundle = 60
     \<and> determine_verdict (of_int (calculate_risk_score isdigit empty_bundle)) empty_bundle
         = (''SUSPICIOUS'', 0.75)"
proof -
  have d: "get_or 0 (domain_age_days (get_or empty_whois (whois signals))) = 0"
    using assms by (auto simp add: empty_whois_def)
  then have a: "age_points signals = 25"
    by (simp add: age_points_def calculate_age_score_cases)
  have r: "calculate_risk_score isdigit empty_bundle = 60"
    by (simp add: calculate_risk_score_def total_score_def empty_bundle_scores max_score_def)
  have v: "determine_verdict 60 empty_bundle = (''SUSPICIOUS'', 0.75)"
    by (simp add: determine_verdict_def empty_defs)
  show ?thesis
    using d a r v by (simp add: empty_bundle_scores)
qed

theorem missing_age_is_critical_witness:
  "(whois ageless_bundle = None
      \<or> (\<exists>w. whois ageless_bundle = Some w \<and> domain_age_days w = None))
   \<and> age_points ageless_bundle = 25
   \<and> calculate_risk_score sample_isdigit empty_bundle = 60"
proof -
  have h: "whois ageless_bundle = None
      \<or> (\<exists>w. whois ageless_bundle = Some w \<and> domain_age_days w = None)"
    by (simp add: ageless_bundle_def)
  show ?thesis
    using h missing_age_is_critical [OF h, of sample_isdigit] by simp
qed

subsection \<open>The verdict\<close>

lemma determine_verdict_cases:
  "determine_verdict final_score signals =
       (if bundle_hits signals > 0 then (''LIKELY SCAM'', 0.95)
        else if final_score \<ge> 70 then (''LIKELY SCAM'', 0.85)
        else if final_score \<ge> 40 then (''SUSPICIOUS'', 0.75)
        else (''SAFE'', 0.80))"
  by (simp add: determine_verdict_def bundle_hits_def Let_def)

text \<open>
  Claim C3, as stated, fails: at a score of 70 and no blacklist hit the verdict string is
  \<^verbatim>\<open>LIKELY SCAM\<close>, with a space, which is none of \<^verbatim>\<open>SAFE\<close>, \<^verbatim>\<open>SUSPICIOUS\<close>,
  \<^verbatim>\<open>LIKELY_SCAM\<close>.
\<close>

theorem verdict_label_counterexample:
  "fst (determine_verdict 70 empty_bundle) \<notin> {''SAFE'', ''SUSPICIOUS'', ''LIKELY_SCAM''}"
  by (simp add: determine_verdict_def empty_defs)

text \<open>
  Claim C3, amended. For every score and bundle the verdict string is one of
  \<^verbatim>\<open>SAFE\<close>, \<^verbatim>\<open>SUSPICIOUS\<close> and \<^verbatim>\<open>LIKELY SCAM\<close>.
\<close>

theorem verdict_labels:
  "fst (determine_verdict score signals) = ''SAFE''
   \<or> fst (determine_verdict score signals) = ''SUSPICIOUS''
   \<or> fst (determine_verdict score signals) = ''LIKELY SCAM''"
  by (simp add: determine_verdict_def Let_def)

subsection \<open>The score combination\<close>

lemma combine_fields:
  "resp_risk_score (combine rt m r s) = round_digits rt (final_risk_score rt m r) 2"
  "resp_verdict (combine rt m r s) = fst (determine_verdict (final_risk_score rt m r) s)"
  "resp_confidence (combine rt m r s)
     = round_digits rt (snd (determine_verdict (final_risk_score rt m r) s)) 2"
  by (simp_all add: combine_def Let_def split: prod.split)

text \<open>Without rounding the final score is the weighted sum of the two scores.\<close>

lemma final_risk_score_exact:
  "final_risk_score exact_runtime ml_risk_score rule_score
     = ml_risk_score * 0.6 + rule_score * 0.4"
  by (simp add: final_risk_score_def exact_runtime_def)

text \<open>
  With a rounding of relative error at most \<open>u\<close> the final score is within
  \<open>(1 + u) ^ 3 - 1\<close>, relative to \<open>\<bar>ml_risk_score\<bar> * 0.6 + \<bar>rule_score\<bar> * 0.4\<close>, of the
  weighted sum.
\<close>

lemma relative_error_exact: "relative_error exact_runtime 0"
  by (simp add: relative_error_def exact_runtime_def)

lemma fl_product:
  assumes "relative_error rt u" and "0 \<le> c"
  shows "\<bar>fl rt (x * fl rt c) - x * c\<bar> \<le> ((1 + u) ^ 2 - 1) * (\<bar>x\<bar> * c)"
    and "\<bar>fl rt (x * fl rt c)\<bar> \<le> (1 + u) ^ 2 * (\<bar>x\<bar> * c)"
proof -
  have u: "0 \<le> u" and e: "\<bar>fl rt y - y\<bar> \<le> u * \<bar>y\<bar>" for y
    using assms(1) by (simp_all add: relative_error_def)
  define a where "a = fl rt c"
  define p where "p = fl rt (x * a)"
  have a1: "\<bar>a - c\<bar> \<le> u * c"
    using e [of c] assms(2) by (simp add: a_def)
  have cu: "0 \<le> c * u"
    using u assms(2) by simp
  have a2: "\<bar>a\<bar> \<le> (1 + u) * c"
    using a1 cu assms(2) by (simp add: algebra_simps abs_le_iff)
  have p1: "\<bar>p - x * a\<bar> \<le> u * (\<bar>x\<bar> * \<bar>a\<bar>)"
    using e [of "x * a"] by (simp add: p_def abs_mult)
  have xa: "\<bar>x\<bar> * \<bar>a\<bar> \<le> \<bar>x\<bar> * ((1 + u) * c)"
    using a2 by (intro mult_left_mono) simp_all
  have p1': "\<bar>p - x * a\<bar> \<le> u * (\<bar>x\<bar> * ((1 + u) * c))"
    using p1 xa u by (meson mult_left_mono order_trans)
  have "\<bar>x * a - x * c\<bar> = \<bar>x\<bar> * \<bar>a - c\<bar>"
    by (simp add: abs_mult right_diff_distrib [symmetric])
  also have "\<dots> \<le> \<bar>x\<bar> * (u * c)"
    using a1 by (intro mult_left_mono) simp_all
  finally have p2: "\<bar>x * a - x * c\<bar> \<le> \<bar>x\<bar> * (u * c)" .
  have "\<bar>p - x * c\<bar> \<le> \<bar>p - x * a\<bar> + \<bar>x * a - x * c\<bar>"
    by simp
  also have "\<dots> \<le> u * (\<bar>x\<bar> * ((1 + u) * c)) + \<bar>x\<bar> * (u * c)"
    using p1' p2 by simp
  also have "\<dots> = ((1 + u) ^ 2 - 1) * (\<bar>x\<bar> * c)"
    by (simp add: power2_eq_square algebra_simps)
  finally show d: "\<bar>fl rt (x * fl rt c) - x * c\<bar> \<le> ((1 + u) ^ 2 - 1) * (\<bar>x\<bar> * c)"
    by (simp add: p_def a_def)
  have "\<bar>fl rt (x * fl rt c)\<bar> \<le> \<bar>fl rt (x * fl rt c) - x * c\<bar> + \<bar>x * c\<bar>"
    by simp
  also have "\<dots> \<le> ((1 + u) ^ 2 - 1) * (\<bar>x\<bar> * c) + \<bar>x\<bar> * c"
    using d assms(2) by (simp add: abs_mult)
  also have "\<dots> = (1 + u) ^ 2 * (\<bar>x\<bar> * c)"
    by (simp add: algebra_simps)
  finally show "\<bar>fl rt (x * fl rt c)\<bar> \<le> (1 + u) ^ 2 * (\<bar>x\<bar> * c)" .
qed

lemma final_risk_score_error:
  assumes "relative_error rt u"
  shows "\<bar>final_risk_score rt m r - (m * 0.6 + r * 0.4)\<bar>
     \<le> ((1 + u) ^ 3 - 1) * (\<bar>m\<bar> * 0.6 + \<bar>r\<bar> * 0.4)"
proof -
  have u: "0 \<le> u" and e: "\<bar>fl rt y - y\<bar> \<le> u * \<bar>y\<bar>" for y
    using assms by (simp_all add: relative_error_def)
  define p where "p = fl rt (m * fl rt 0.6)"
  define q where "q = fl rt (r * fl rt 0.4)"
  define M where "M = \<bar>m\<bar> * 0.6"
  define R where "R = \<bar>r\<bar> * 0.4"
  have p1: "\<bar>p - m * 0.6\<bar> \<le> ((1 + u) ^ 2 - 1) * M" and p2: "\<bar>p\<bar> \<le> (1 + u) ^ 2 * M"
    unfolding p_def M_def using fl_product [OF assms, where c = "0.6" and x = m] by simp_all
  have q1: "\<bar>q - r * 0.4\<bar> \<le> ((1 + u) ^ 2 - 1) * R" and q2: "\<bar>q\<bar> \<le> (1 + u) ^ 2 * R"
    unfolding q_def R_def using fl_product [OF assms, where c = "0.4" and x = r] by simp_all
  have "\<bar>p + q\<bar> \<le> (1 + u) ^ 2 * M + (1 + u) ^ 2 * R"
    using p2 q2 by linarith
  then have "u * \<bar>p + q\<bar> \<le> u * ((1 + u) ^ 2 * M + (1 + u) ^ 2 * R)"
    using u by (rule mult_left_mono)
  then have s: "\<bar>fl rt (p + q) - (p + q)\<bar> \<le> u * ((1 + u) ^ 2 * M + (1 + u) ^ 2 * R)"
    using e [of "p + q"] by linarith
  have "\<bar>fl rt (p + q) - (m * 0.6 + r * 0.4)\<bar>
      \<le> \<bar>fl rt (p + q) - (p + q)\<bar> + \<bar>p - m * 0.6\<bar> + \<bar>q - r * 0.4\<bar>"
    by linarith
  also have "\<dots> \<le> u * ((1 + u) ^ 2 * M + (1 + u) ^ 2 * R)
      + ((1 + u) ^ 2 - 1) * M + ((1 + u) ^ 2 - 1) * R"
    using s p1 q1 by linarith
  also have "\<dots> = ((1 + u) ^ 3 - 1) * (M + R)"
    by (simp add: power2_eq_square power3_eq_cube algebra_simps)
  finally show ?thesis
    by (simp add: final_risk_score_def p_def q_def M_def R_def)
qed

text \<open>
  Claim C2, as stated, fails in the verdict it names: with one blacklist hit the code
  returns the string \<^verbatim>\<open>LIKELY SCAM\<close> with confidence 0.95, not \<^verbatim>\<open>LIKELY_SCAM\<close>.
\<close>

theorem combiner_label_counterexample:
  "bundle_hits hit_bundle > 0
   \<and> determine_verdict 10 hit_bundle = (''LIKELY SCAM'', 0.95)
   \<and> determine_verdict 10 hit_bundle \<noteq> (''LIKELY_SCAM'', 0.95)"
  by (simp add: determine_verdict_def hit_bundle_def empty_defs bundle_hits_def)

text \<open>
  Claim C2, amended. The final score is \<^verbatim>\<open>ml.risk_score * 0.6 + rule_score * 0.4\<close> in
  floating point: the two products and their sum are each rounded to a double, and 0.6 and
  0.4 are the doubles nearest to them. The response carries the final score rounded to two
  decimals, and the verdict and the confidence (rounded to two decimals) that
  \<open>determine_verdict\<close> selects from the final score, not from its rounded value, by first
  match: a positive blacklist hit count gives \<^verbatim>\<open>LIKELY SCAM\<close> at 0.95 whatever the score;
  else a score of at least 70 gives \<^verbatim>\<open>LIKELY SCAM\<close> at 0.85; else a score of at least 40
  gives \<^verbatim>\<open>SUSPICIOUS\<close> at 0.75; else \<^verbatim>\<open>SAFE\<close> at 0.80. So a final score of 70.00 is
  \<^verbatim>\<open>LIKELY SCAM\<close>, 69.99 and 40.00 are \<^verbatim>\<open>SUSPICIOUS\<close> and 39.99 is \<^verbatim>\<open>SAFE\<close>.
\<close>

theorem combiner_priority_order:
  "final_risk_score rt ml_risk_score rule_score
     = fl rt (fl rt (ml_risk_score * fl rt 0.6) + fl rt (rule_score * fl rt 0.4))
   \<and> resp_risk_score (combine rt ml_risk_score rule_score signals)
       = round_digits rt (final_risk_score rt ml_risk_score rule_score) 2
   \<and> resp_verdict (combine rt ml_risk_score rule_score signals)
       = fst (determine_verdict (final_risk_score rt ml_risk_score rule_score) signals)
   \<and> resp_confidence (combine rt ml_risk_score rule_score signals)
       = round_digits rt
           (snd (determine_verdict (final_risk_score rt ml_risk_score rule_score) signals)) 2
   \<and> determine_verdict final_score signals =
       (if bundle_hits signals > 0 then (''LIKELY SCAM'', 0.95)
        else if final_score \<ge> 70 then (''LIKELY SCAM'', 0.85)
        else if final_score \<ge> 40 then (''SUSPICIOUS'', 0.75)
        else (''SAFE'', 0.80))
   \<and> determine_verdict 70.00 empty_bundle = (''LIKELY SCAM'', 0.85)
   \<and> determine_verdict 69.99 empty_bundle = (''SUSPICIOUS'', 0.75)
   \<and> determine_verdict 40.00 empty_bundle = (''SUSPICIOUS'', 0.75)
   \<and> determine_verdict 39.99 empty_bundle = (''SAFE'', 0.80)"
proof -
  have h0: "bundle_hits empty_bundle = 0"
    by (simp add: bundle_hits_def empty_defs)
  have ex: "determine_verdict 70.00 empty_bundle = (''LIKELY SCAM'', 0.85)"
    "determine_verdict 69.99 empty_bundle = (''SUSPICIOUS'', 0.75)"
    "determine_verdict 40.00 empty_bundle = (''SUSPICIOUS'', 0.75)"
    "determine_verdict 39.99 empty_bundle = (''SAFE'', 0.80)"
    by (simp_all add: determine_verdict_cases h0)
  show ?thesis
    using ex determine_verdict_cases [of final_score signals]
    by (simp add: final_risk_score_def combine_fields)
qed

text \<open>
  The verdict follows the float, not the exact sum: where the rounded sum of the products
  reaches 70 the verdict is \<^verbatim>\<open>LIKELY SCAM\<close>, also when the exact sum is below 70 (as for
  an ML score of 69.99999999999999 and a rule score of 70, whose float sum is 70.0).
\<close>

lemma verdict_follows_float:
  assumes "bundle_hits signals = 0"
    and "70 \<le> fl rt (fl rt (ml_risk_score * fl rt 0.6) + fl rt (rule_score * fl rt 0.4))"
  shows "resp_verdict (combine rt ml_risk_score rule_score signals) = ''LIKELY SCAM''"
  using assms by (simp add: combine_fields determine_verdict_cases final_risk_score_def)


subsection \<open>The explanation trail\<close>

lemmas emoji_defs = emoji_siren_def emoji_warning_def emoji_check_def emoji_info_def
lemmas banner_defs = scam_banner_def suspicious_banner_def safe_banner_def

lemma is_banner_verdict_banner: "is_banner (verdict_banner score)"
  by (simp add: is_banner_def verdict_banner_def)

text \<open>No line that a category appends is a verdict banner.\<close>

lemma no_banner_age: "filter is_banner (age_lines d) = []"
  by (simp add: age_lines_def is_banner_def banner_defs emoji_defs)

lemma no_banner_ssl: "filter is_banner (ssl_lines s) = []"
  by (simp add: ssl_lines_def is_banner_def banner_defs emoji_defs split: option.split)

lemma no_banner_blacklist: "filter is_banner (blacklist_lines b) = []"
  by (simp add: blacklist_lines_def is_banner_def banner_defs emoji_defs Let_def)

lemma no_banner_scam_pattern: "filter is_banner (scam_pattern_lines b) = []"
  by (simp add: scam_pattern_lines_def is_banner_def banner_defs emoji_defs)

lemma no_banner_indicator: "filter is_banner (indicator_lines b) = []"
  by (simp add: indicator_lines_def is_banner_def banner_defs emoji_defs filter_empty_conv)

lemma no_banner_hosting: "filter is_banner (hosting_lines h) = []"
  by (simp add: hosting_lines_def is_banner_def banner_defs emoji_defs Let_def)

lemma no_banner_content: "filter is_banner (content_lines c) = []"
  by (simp add: content_lines_def is_banner_def banner_defs emoji_defs Let_def apostrophe_def)

lemma no_banner_dns: "filter is_banner (dns_lines d) = []"
  by (simp add: dns_lines_def is_banner_def banner_defs emoji_defs)

lemma no_banner_category_lines: "filter is_banner (category_lines signals) = []"
  unfolding category_lines_def filter_append
  by (simp only: no_banner_age no_banner_ssl no_banner_blacklist no_banner_scam_pattern
      no_banner_indicator no_banner_hosting no_banner_content no_banner_dns append_Nil)

lemma no_banner_tail: "\<not> is_banner []" "\<not> is_banner disclaimer"
  by (simp_all add: is_banner_def banner_defs disclaimer_def emoji_defs)

text \<open>
  Claim C9. For every bundle and every final score the trail is the verdict banner,
  then the category lines, then an empty string and the disclaimer. The banner is the scam
  banner from 70 on, the suspicious banner from 40 to below 70 and the safe banner below
  40; it is the first element and the only banner of the trail. The last two elements are
  the empty string and the disclaimer, whatever the number of category lines; the empty
  bundle has three of them.
\<close>

theorem explanation_trail_frame:
  "generate_explanations signals score =
     verdict_banner score # category_lines signals @ ['''', disclaimer]
   \<and> generate_explanations signals score ! 0 = verdict_banner score
   \<and> verdict_banner score =
       (if score \<ge> 70 then scam_banner else if score \<ge> 40 then suspicious_banner
        else safe_banner)
   \<and> filter is_banner (generate_explanations signals score) = [verdict_banner score]
   \<and> length (generate_explanations signals score) = length (category_lines signals) + 3
   \<and> generate_explanations signals score ! (length (generate_explanations signals score) - 2)
       = ''''
   \<and> generate_explanations signals score ! (length (generate_explanations signals score) - 1)
       = disclaimer
   \<and> length (category_lines empty_bundle) = 3"
proof -
  let ?es = "generate_explanations signals score"
  have shape: "?es = verdict_banner score # category_lines signals @ ['''', disclaimer]"
    by (simp add: generate_explanations_def)
  have one: "filter is_banner ?es = [verdict_banner score]"
    unfolding shape
    by (simp add: no_banner_category_lines no_banner_tail is_banner_verdict_banner)
  have len: "length ?es = length (category_lines signals) + 3"
    by (simp add: shape)
  have last2: "?es ! (length ?es - 2) = ''''"
    unfolding len by (simp add: shape nth_append)
  have last1: "?es ! (length ?es - 1) = disclaimer"
    unfolding len by (simp add: shape nth_append)
  have empty: "length (category_lines empty_bundle) = 3"
    by (simp add: category_lines_def age_lines_def ssl_lines_def blacklist_lines_def
        scam_pattern_lines_def indicator_lines_def hosting_lines_def content_lines_def
        dns_lines_def empty_bundle_def empty_whois_def empty_ssl_def empty_dns_def
        empty_blacklist_def empty_hosting_def empty_content_def)
  show ?thesis
    using shape one len last2 last1 empty by (simp add: verdict_banner_def)
qed

text \<open>
  The trail of the sample bundle at a final score of 85: the scam banner, seven category
  lines, the empty string and the disclaimer.
\<close>

theorem explanation_trail_frame_witness:
  "generate_explanations sample_bundle 85 =
     [scam_banner,
      emoji_siren @ '' CRITICAL: Domain is extremely new (less than 1 week old)'',
      emoji_siren @ '' CRITICAL: No HTTPS/SSL certificate detected'',
      emoji_siren @ '' CRITICAL: Found on 100 security blacklist(s)'',
      ''   Blacklists: dbl.spamhaus.org'',
      emoji_warning @ '' HIGH RISK: Domain name contains scam-related keywords'',
      emoji_warning @ '' WARNING: Domain uses commonly abused TLD'',
      emoji_siren @ '' CRITICAL: Domain does not resolve to an IP address'',
      [], disclaimer]
   \<and> filter is_banner (generate_explanations sample_bundle 85) = [scam_banner]"
proof -
  have s: "str_of_int 100 = ''100''"
    by code_simp
  have c: "category_lines sample_bundle =
     [emoji_siren @ '' CRITICAL: Domain is extremely new (less than 1 week old)'',
      emoji_siren @ '' CRITICAL: No HTTPS/SSL certificate detected'',
      emoji_siren @ '' CRITICAL: Found on 100 security blacklist(s)'',
      ''   Blacklists: dbl.spamhaus.org'',
      emoji_warning @ '' HIGH RISK: Domain name contains scam-related keywords'',
      emoji_warning @ '' WARNING: Domain uses commonly abused TLD'',
      emoji_siren @ '' CRITICAL: Domain does not resolve to an IP address'']"
    by (simp add: category_lines_def sample_bundle_def age_lines_def ssl_lines_def
        blacklist_lines_def scam_pattern_lines_def indicator_lines_def hosting_lines_def
        content_lines_def dns_lines_def s)
  have b: "verdict_banner 85 = scam_banner"
    by (simp add: verdict_banner_def)
  note frame = explanation_trail_frame [of sample_bundle 85]
  from frame have shape: "generate_explanations sample_bundle 85 =
      verdict_banner 85 # category_lines sample_bundle @ [[], disclaimer]"
    by (rule conjunct1)
  from frame have one: "filter is_banner (generate_explanations sample_bundle 85)
      = [verdict_banner 85]"
    by blast
  show ?thesis
  proof (rule conjI)
    show "generate_explanations sample_bundle 85 =
     [scam_banner,
      emoji_siren @ '' CRITICAL: Domain is extremely new (less than 1 week old)'',
      emoji_siren @ '' CRITICAL: No HTTPS/SSL certificate detected'',
      emoji_siren @ '' CRITICAL: Found on 100 security blacklist(s)'',
      ''   Blacklists: dbl.spamhaus.org'',
      emoji_warning @ '' HIGH RISK: Domain name contains scam-related keywords'',
      emoji_warning @ '' WARNING: Domain uses commonly abused TLD'',
      emoji_siren @ '' CRITICAL: Domain does not resolve to an IP address'',
      [], disclaimer]"
      unfolding shape c b by simp
    show "filter is_banner (generate_explanations sample_bundle 85) = [scam_banner]"
      unfolding one b by (rule refl)
  qed
qed

subsection \<open>Feature normalisation\<close>

lemma float_limit_bounds: "100 < float_limit" "float_limit \<le> 2 ^ 1024"
proof -
  have "(2::real) ^ 970 * 2 \<le> 2 ^ 970 * 2 ^ 54"
    by (intro mult_left_mono) simp_all
  then have "(2::real) ^ 970 + 2 ^ 970 \<le> 2 ^ 1024"
    by (simp add: power_add [symmetric])
  moreover have "(100::real) < 2 ^ 970"
    using power_strict_increasing [of 7 970 "2::real"] by simp
  ultimately show "100 < float_limit"
    by (simp add: float_limit_def)
  show "float_limit \<le> 2 ^ 1024"
    by (simp add: float_limit_def)
qed

lemma and_then_isl: "isl (and_then x f) = (isl x \<or> isl (f (projr x)))"
  by (cases x) simp_all

lemma to_float_isl: "isl (to_float rt v) = (\<not> float_convertible v)"
  by (cases v) (simp_all add: not_less)

lemma py_truediv_isl: "isl (py_truediv rt v c) = (\<not> float_convertible v)"
  by (simp add: py_truediv_def and_then_isl to_float_isl)

lemma py_mul_isl: "isl (py_mul rt v w) = (\<not> float_convertible v)"
  by (simp add: py_mul_def and_then_isl to_float_isl)

lemma py_truediv_int_isl: "isl (py_truediv_int rt v c) = (\<not> quotient_convertible v c)"
  by (cases v) (simp_all add: not_less)

text \<open>\<open>normalize_features\<close> raises exactly when one of its five divisions does.\<close>

lemma normalize_features_isl:
  "isl (normalize_features rt f) =
     (\<not> quotient_convertible (get_or (PInt 0) (f ''domain_age_days'')) (365 * 3)
      \<or> \<not> float_convertible (get_or (PInt 0) (f ''blacklist_count''))
      \<or> \<not> float_convertible (get_or (PInt 50) (f ''hosting_reputation_score''))
      \<or> \<not> float_convertible (get_or (PInt 0) (f ''domain_length''))
      \<or> \<not> float_convertible (get_or (PInt 0) (f ''content_risk_keywords'')))"
  by (simp add: normalize_features_def and_then_isl py_truediv_isl py_truediv_int_isl)

lemma normalize_features_Inr:
  assumes "normalize_features rt f = Inr nf"
  shows "\<exists>a b h l k.
     py_truediv_int rt (get_or (PInt 0) (f ''domain_age_days'')) (365 * 3) = Inr a
     \<and> nf = Map.empty
       (''domain_age_days'' \<mapsto> PFloat (min a 1),
        ''has_https'' \<mapsto> get_or (PInt 0) (f ''has_https''),
        ''ssl_valid'' \<mapsto> get_or (PInt 0) (f ''ssl_valid''),
        ''dns_resolved'' \<mapsto> get_or (PInt 0) (f ''dns_resolved''),
        ''has_whois_privacy'' \<mapsto> get_or (PInt 0) (f ''has_whois_privacy''),
        ''blacklist_count'' \<mapsto> PFloat (min b 1),
        ''hosting_reputation_score'' \<mapsto> PFloat h,
        ''content_scam_score'' \<mapsto> get_or (PFloat 0.5) (f ''content_scam_score''),
        ''domain_length'' \<mapsto> PFloat (min l 1),
        ''content_risk_keywords'' \<mapsto> PFloat (min k 1))"
proof -
  obtain a where a:
    "py_truediv_int rt (get_or (PInt 0) (f ''domain_age_days'')) (365 * 3) = Inr a"
    using assms
    by (cases "py_truediv_int rt (get_or (PInt 0) (f ''domain_age_days'')) (365 * 3)")
      (simp_all add: normalize_features_def)
  obtain b where b: "py_truediv rt (get_or (PInt 0) (f ''blacklist_count'')) 5.0 = Inr b"
    using assms a
    by (cases "py_truediv rt (get_or (PInt 0) (f ''blacklist_count'')) 5.0")
      (simp_all add: normalize_features_def)
  obtain h where h:
    "py_truediv rt (get_or (PInt 50) (f ''hosting_reputation_score'')) 100.0 = Inr h"
    using assms a b
    by (cases "py_truediv rt (get_or (PInt 50) (f ''hosting_reputation_score'')) 100.0")
      (simp_all add: normalize_features_def)
  obtain l where l: "py_truediv rt (get_or (PInt 0) (f ''domain_length'')) 50.0 = Inr l"
    using assms a b h
    by (cases "py_truediv rt (get_or (PInt 0) (f ''domain_length'')) 50.0")
      (simp_all add: normalize_features_def)
  obtain k where k: "py_truediv rt (get_or (PInt 0) (f ''content_risk_keywords'')) 10.0 = Inr k"
    using assms a b h l
    by (cases "py_truediv rt (get_or (PInt 0) (f ''content_risk_keywords'')) 10.0")
      (simp_all add: normalize_features_def)
  have nf: "nf = Map.empty
       (''domain_age_days'' \<mapsto> PFloat (min a 1),
        ''has_https'' \<mapsto> get_or (PInt 0) (f ''has_https''),
        ''ssl_valid'' \<mapsto> get_or (PInt 0) (f ''ssl_valid''),
        ''dns_resolved'' \<mapsto> get_or (PInt 0) (f ''dns_resolved''),
        ''has_whois_privacy'' \<mapsto> get_or (PInt 0) (f ''has_whois_privacy''),
        ''blacklist_count'' \<mapsto> PFloat (min b 1),
        ''hosting_reputation_score'' \<mapsto> PFloat h,
        ''content_scam_score'' \<mapsto> get_or (PFloat 0.5) (f ''content_scam_score''),
        ''domain_length'' \<mapsto> PFloat (min l 1),
        ''content_risk_keywords'' \<mapsto> PFloat (min k 1))"
    using assms a b h l k by (simp add: normalize_features_def)
  show ?thesis
    using a nf by blast
qed

text \<open>
  The four caps hold on every input: where \<open>normalize_features\<close> returns, the age, the
  blacklist count, the length and the keyword count of the vector are at most 1.
\<close>

lemma normalize_capped_above:
  assumes "normalize_features rt f = Inr nf"
    and "name \<in> {''domain_age_days'', ''blacklist_count'', ''domain_length'',
      ''content_risk_keywords''}"
  shows "\<exists>r. nf name = Some (PFloat r) \<and> r \<le> 1"
proof -
  obtain a b h l k where nf: "nf = Map.empty
       (''domain_age_days'' \<mapsto> PFloat (min a 1),
        ''has_https'' \<mapsto> get_or (PInt 0) (f ''has_https''),
        ''ssl_valid'' \<mapsto> get_or (PInt 0) (f ''ssl_valid''),
        ''dns_resolved'' \<mapsto> get_or (PInt 0) (f ''dns_resolved''),
        ''has_whois_privacy'' \<mapsto> get_or (PInt 0) (f ''has_whois_privacy''),
        ''blacklist_count'' \<mapsto> PFloat (min b 1),
        ''hosting_reputation_score'' \<mapsto> PFloat h,
        ''content_scam_score'' \<mapsto> get_or (PFloat 0.5) (f ''content_scam_score''),
        ''domain_length'' \<mapsto> PFloat (min l 1),
        ''content_risk_keywords'' \<mapsto> PFloat (min k 1))"
    using normalize_features_Inr [OF assms(1)] by blast
  show ?thesis
    using assms(2) unfolding nf by auto
qed

text \<open>
  An age of 100000 days is capped at 1.0, the rounded quotient \<open>100000 / 1095\<close> being at
  least 1.
\<close>

lemma normalize_old_domain:
  assumes "1 \<le> fl rt (100000 / 1095)"
    and "normalize_features rt (f(''domain_age_days'' \<mapsto> PInt 100000)) = Inr nf"
  shows "nf ''domain_age_days'' = Some (PFloat 1.0)"
proof -
  obtain a where a: "py_truediv_int rt (PInt 100000) (365 * 3) = Inr a"
    and nf: "nf ''domain_age_days'' = Some (PFloat (min a 1))"
    using normalize_features_Inr [OF assms(2)] by auto
  have "a = fl rt (100000 / 1095)"
    using a float_limit_bounds(1) by simp
  then show ?thesis
    using assms(1) nf by simp
qed

text \<open>
  Claim C1. The docstring of \<^verbatim>\<open>_normalize_features\<close> promises values in the 0-1 range and
  the claim asks it of every raw input. The method caps four features from above and bounds
  no feature from below. For a domain whose creation date lies ahead of the clock of the
  server the WHOIS collector reports an age of \<open>- 1\<close> day: the method returns, and the
  normalized age is the double nearest to \<open>- 1 / 1095\<close> (about \<open>- 0.0009\<close>), capped at
  1.0. That double is negative, so not every feature of the vector lies between 0 and 1.
\<close>

theorem normalize_negative_age:
  "\<not> isl (normalize_features rt future_dated_features)
   \<and> projr (normalize_features rt future_dated_features) ''domain_age_days''
       = Some (PFloat (min (fl rt (- 1 / (365 * 3))) 1.0))
   \<and> (fl rt (- 1 / (365 * 3)) < 0
        \<longrightarrow> \<not> all_in_unit (projr (normalize_features rt future_dated_features)))"
proof -
  have d: "py_truediv_int rt (PInt (- 1)) (365 * 3) = Inr (fl rt (- 1 / (365 * 3)))"
    using float_limit_bounds(1) by simp
  have c: "float_convertible (PInt 0)" "float_convertible (PInt 50)"
    "float_convertible (PInt 11)"
    using float_limit_bounds(1) by simp_all
  then obtain b h l k where o: "py_truediv rt (PInt 0) 5.0 = Inr b"
    "py_truediv rt (PInt 50) 100.0 = Inr h" "py_truediv rt (PInt 11) 50.0 = Inr l"
    "py_truediv rt (PInt 0) 10.0 = Inr k"
    using py_truediv_isl [of rt "PInt 0"] py_truediv_isl [of rt "PInt 50"]
      py_truediv_isl [of rt "PInt 11"]
    by (metis sum.collapse(2))
  have age: "projr (normalize_features rt future_dated_features) ''domain_age_days''
       = Some (PFloat (min (fl rt (- 1 / (365 * 3))) 1.0))"
    and ret: "\<not> isl (normalize_features rt future_dated_features)"
    using d o by (simp_all add: normalize_features_def future_dated_features_def)
  have "\<not> all_in_unit (projr (normalize_features rt future_dated_features))"
    if "fl rt (- 1 / (365 * 3)) < 0"
    using that age by (simp add: all_in_unit_def feature_names_def num_between_def)
  with age ret show ?thesis by blast
qed

text \<open>Without rounding the normalized age is \<open>- 1 / 1095\<close>.\<close>

theorem normalize_negative_age_witness:
  "fl exact_runtime (- 1 / (365 * 3)) < 0
   \<and> projr (normalize_features exact_runtime future_dated_features) ''domain_age_days''
       = Some (PFloat (- 1 / 1095))
   \<and> \<not> all_in_unit (projr (normalize_features exact_runtime future_dated_features))"
  using normalize_negative_age [of exact_runtime] by (simp add: exact_runtime_def)


subsection \<open>The model confidence\<close>

lemma confidence_spec_range: "0 \<le> confidence_spec nf \<and> confidence_spec nf \<le> 0.95"
proof -
  define start where "start = real (data_availability nf) / 4"
  define raised1 where "raised1 = (if exceeds (feature nf ''blacklist_count'' (PInt 0)) 0
                     then max start 0.9 else start)"
  define raised2 where "raised2 = (if exceeds (feature nf ''content_scam_score'' (PFloat 0.5)) 0.7
                        \<or> below (feature nf ''content_scam_score'' (PFloat 0.5)) 0.3
                     then max raised1 0.8 else raised1)"
  have "0 \<le> start" by (simp add: start_def)
  then have "0 \<le> raised1" by (simp add: raised1_def max_def)
  then have "0 \<le> raised2" by (simp add: raised2_def max_def)
  moreover have "confidence_spec nf = min raised2 0.95"
    by (simp add: confidence_spec_def Let_def start_def raised1_def raised2_def)
  ultimately show ?thesis by simp
qed

lemma features_with_data_numeric:
  assumes "as_real (get_or (PInt 0) (nf ''domain_age_days'')) = Some a"
  shows "features_with_data nf = Inr (data_availability nf)"
proof -
  have g: "py_gt (get_or (PInt 0) (nf ''domain_age_days'')) 0 = Inr (a > 0)"
    using assms by (simp add: py_gt_def)
  have s: "exceeds (feature nf ''domain_age_days'' (PInt 0)) 0 = (a > 0)"
    using assms by (simp add: exceeds_def feature_def)
  show ?thesis
    unfolding features_with_data_def data_availability_def g s
    by (simp add: Let_def py_eq_def feature_def)
qed

lemma calculate_confidence_numeric:
  assumes "numeric_vector nf"
  shows "calculate_confidence nf = Inr (confidence_spec nf)"
proof -
  obtain a b c where v: "as_real (get_or (PInt 0) (nf ''domain_age_days'')) = Some a"
    "as_real (get_or (PInt 0) (nf ''blacklist_count'')) = Some b"
    "as_real (get_or (PFloat 0.5) (nf ''content_scam_score'')) = Some c"
    using assms by (auto simp add: numeric_vector_def feature_def)
  have g: "py_gt (get_or (PInt 0) (nf ''blacklist_count'')) 0 = Inr (b > 0)"
    "py_gt (get_or (PFloat 0.5) (nf ''content_scam_score'')) 0.7 = Inr (c > 0.7)"
    "py_lt (get_or (PFloat 0.5) (nf ''content_scam_score'')) 0.3 = Inr (c < 0.3)"
    using v by (simp_all add: py_gt_def py_lt_def)
  have s: "exceeds (feature nf ''blacklist_count'' (PInt 0)) 0 = (b > 0)"
    "exceeds (feature nf ''content_scam_score'' (PFloat 0.5)) 0.7 = (c > 0.7)"
    "below (feature nf ''content_scam_score'' (PFloat 0.5)) 0.3 = (c < 0.3)"
    using v by (simp_all add: exceeds_def below_def feature_def)
  show ?thesis
    using g
    unfolding calculate_confidence_def confidence_spec_def
      features_with_data_numeric [of nf a, OF v(1)] s and_then.simps
    by (cases "c > 0.7") (simp_all add: Let_def)
qed

lemma calculate_confidence_raises:
  assumes "\<not> numeric_vector nf"
  shows "calculate_confidence nf = Inl TypeError"
proof (cases "as_real (get_or (PInt 0) (nf ''domain_age_days''))")
  case None
  then show ?thesis
    by (simp add: calculate_confidence_def features_with_data_def py_gt_def Let_def)
next
  case a: (Some a)
  note n = features_with_data_numeric [of nf a, OF a]
  show ?thesis
  proof (cases "as_real (get_or (PInt 0) (nf ''blacklist_count''))")
    case None
    then show ?thesis
      by (simp add: calculate_confidence_def n py_gt_def Let_def)
  next
    case b: (Some b)
    have "as_real (get_or (PFloat 0.5) (nf ''content_scam_score'')) = None"
      using assms a b by (simp add: numeric_vector_def feature_def)
    then show ?thesis
      using b by (simp add: calculate_confidence_def n py_gt_def Let_def)
  qed
qed

text \<open>Whatever the vector holds, a confidence that is returned is within 0 and 0.95.\<close>

lemma calculate_confidence_bounds:
  assumes "calculate_confidence nf = Inr c"
  shows "0 \<le> c \<and> c \<le> 0.95"
proof -
  have "numeric_vector nf"
    using assms calculate_confidence_raises by fastforce
  then show ?thesis
    using assms confidence_spec_range [of nf] by (simp add: calculate_confidence_numeric)
qed

text \<open>
  Claim C7. On every feature vector (of numbers) \<open>calculate_confidence\<close> returns the
  confidence the specification describes: a quarter of the number of the four conditions
  that hold, raised to at least 0.9 when the blacklist count is positive, raised to at
  least 0.8 when the content score is above 0.7 or below 0.3, capped at 0.95. The value is
  within 0 and 0.95.
\<close>

theorem confidence_in_range:
  assumes "numeric_vector nf"
  shows "calculate_confidence nf = Inr (confidence_spec nf)
     \<and> 0 \<le> confidence_spec nf \<and> confidence_spec nf \<le> 0.95"
  using assms calculate_confidence_numeric confidence_spec_range by blast

text \<open>
  On the sample vector all four conditions hold and the blacklist count is positive: the
  confidence is the cap.
\<close>

theorem confidence_in_range_witness:
  "numeric_vector sample_vector \<and> calculate_confidence sample_vector = Inr 0.95
   \<and> data_availability sample_vector = 4"
proof -
  have h: "numeric_vector sample_vector"
    by (simp add: numeric_vector_def feature_def sample_vector_def)
  have d: "data_availability sample_vector = 4"
    by (simp add: data_availability_def feature_def exceeds_def sample_vector_def)
  have c: "confidence_spec sample_vector = 0.95"
    unfolding confidence_spec_def d
    by (simp add: Let_def feature_def exceeds_def below_def sample_vector_def)
  show ?thesis
    using h d c confidence_in_range [OF h] by simp
qed

subsection \<open>predict does not raise\<close>

lemma float_convertible_as_real: "float_convertible v \<Longrightarrow> as_real v \<noteq> None"
  by (cases v) simp_all

lemma score_loop_isl: "isl (score_loop rt ws nf score) = (\<not> weighted_convertible ws nf)"
  by (induction ws arbitrary: score)
    (auto simp add: weighted_convertible_def and_then_isl py_mul_isl)

lemma importance_loop_isl: "isl (importance_loop rt ws nf) = (\<not> weighted_convertible ws nf)"
  by (induction ws) (auto simp add: weighted_convertible_def and_then_isl py_mul_isl)

text \<open>
  In a normalized vector the five divided features are floats, so the loops over the
  weight table run through exactly when the five copied features become floats.
\<close>

lemma weighted_convertible_normalized:
  assumes "normalize_features rt f = Inr nf"
  shows "weighted_convertible weights nf =
     (float_convertible (get_or (PInt 0) (f ''has_https''))
      \<and> float_convertible (get_or (PInt 0) (f ''ssl_valid''))
      \<and> float_convertible (get_or (PFloat 0.5) (f ''content_scam_score''))
      \<and> float_convertible (get_or (PInt 0) (f ''dns_resolved''))
      \<and> float_convertible (get_or (PInt 0) (f ''has_whois_privacy'')))"
proof -
  obtain a b h l k where nf: "nf = Map.empty
       (''domain_age_days'' \<mapsto> PFloat (min a 1),
        ''has_https'' \<mapsto> get_or (PInt 0) (f ''has_https''),
        ''ssl_valid'' \<mapsto> get_or (PInt 0) (f ''ssl_valid''),
        ''dns_resolved'' \<mapsto> get_or (PInt 0) (f ''dns_resolved''),
        ''has_whois_privacy'' \<mapsto> get_or (PInt 0) (f ''has_whois_privacy''),
        ''blacklist_count'' \<mapsto> PFloat (min b 1),
        ''hosting_reputation_score'' \<mapsto> PFloat h,
        ''content_scam_score'' \<mapsto> get_or (PFloat 0.5) (f ''content_scam_score''),
        ''domain_length'' \<mapsto> PFloat (min l 1),
        ''content_risk_keywords'' \<mapsto> PFloat (min k 1))"
    using normalize_features_Inr [OF assms] by blast
  show ?thesis
    unfolding nf weighted_convertible_def weights_def by auto
qed

lemma numeric_vector_normalized:
  assumes "normalize_features rt f = Inr nf"
    and "float_convertible (get_or (PFloat 0.5) (f ''content_scam_score''))"
  shows "numeric_vector nf"
proof -
  obtain a b h l k where nf: "nf = Map.empty
       (''domain_age_days'' \<mapsto> PFloat (min a 1),
        ''has_https'' \<mapsto> get_or (PInt 0) (f ''has_https''),
        ''ssl_valid'' \<mapsto> get_or (PInt 0) (f ''ssl_valid''),
        ''dns_resolved'' \<mapsto> get_or (PInt 0) (f ''dns_resolved''),
        ''has_whois_privacy'' \<mapsto> get_or (PInt 0) (f ''has_whois_privacy''),
        ''blacklist_count'' \<mapsto> PFloat (min b 1),
        ''hosting_reputation_score'' \<mapsto> PFloat h,
        ''content_scam_score'' \<mapsto> get_or (PFloat 0.5) (f ''content_scam_score''),
        ''domain_length'' \<mapsto> PFloat (min l 1),
        ''content_risk_keywords'' \<mapsto> PFloat (min k 1))"
    using normalize_features_Inr [OF assms(1)] by blast
  show ?thesis
    unfolding nf numeric_vector_def feature_def
    using float_convertible_as_real [OF assms(2)] by simp
qed

lemma usable_features_eq:
  "usable_features f =
     (\<not> isl (normalize_features rt f)
      \<and> float_convertible (get_or (PInt 0) (f ''has_https''))
      \<and> float_convertible (get_or (PInt 0) (f ''ssl_valid''))
      \<and> float_convertible (get_or (PFloat 0.5) (f ''content_scam_score''))
      \<and> float_convertible (get_or (PInt 0) (f ''dns_resolved''))
      \<and> float_convertible (get_or (PInt 0) (f ''has_whois_privacy'')))"
  unfolding normalize_features_isl usable_features_def by auto

text \<open>
  The \<^verbatim>\<open>try\<close> body raises on a feature that does not become a float, and only then.
\<close>

lemma predict_body_unusable:
  assumes "\<not> usable_features f"
  shows "isl (predict_body rt f)"
proof (cases "normalize_features rt f")
  case (Inl e)
  then show ?thesis
    by (simp add: predict_body_def)
next
  case (Inr nf)
  have "\<not> weighted_convertible weights nf"
    using assms Inr
    by (simp add: usable_features_eq [of f rt] weighted_convertible_normalized [OF Inr])
  then have "isl (calculate_score rt nf)"
    by (simp add: calculate_score_def score_loop_isl)
  then show ?thesis
    by (simp add: predict_body_def Inr and_then_isl)
qed

lemma predict_body_usable:
  assumes "usable_features f"
  shows "\<exists>nf score importance. normalize_features rt f = Inr nf
     \<and> calculate_score rt nf = Inr score
     \<and> calculate_feature_importance rt nf = Inr importance
     \<and> predict_body rt f = Inr \<lparr>risk_score = fl rt (sigmoid rt score * 100),
          probability = sigmoid rt score, confidence = confidence_spec nf,
          feature_importance = importance,
          model_version = Some ''1.0-simulated'', error = None\<rparr>"
proof -
  note u = assms [unfolded usable_features_eq [of f rt]]
  obtain nf where nf: "normalize_features rt f = Inr nf"
    using u by (cases "normalize_features rt f") simp_all
  have w: "weighted_convertible weights nf"
    using u by (simp add: weighted_convertible_normalized [OF nf])
  have "\<not> isl (calculate_score rt nf)"
    using w by (simp add: calculate_score_def score_loop_isl)
  then obtain score where score: "calculate_score rt nf = Inr score"
    by (cases "calculate_score rt nf") simp_all
  have "\<not> isl (importance_loop rt weights nf)"
    using w by (simp add: importance_loop_isl)
  then obtain raw where raw: "importance_loop rt weights nf = Inr raw"
    by (cases "importance_loop rt weights nf") simp_all
  have imp: "calculate_feature_importance rt nf = Inr (sort_key (\<lambda>x. - snd x) raw)"
    by (simp add: calculate_feature_importance_def raw)
  have "numeric_vector nf"
    using u by (intro numeric_vector_normalized [OF nf]) simp
  then have c: "calculate_confidence nf = Inr (confidence_spec nf)"
    by (rule calculate_confidence_numeric)
  show ?thesis
    using nf score imp c by (simp add: predict_body_def Let_def)
qed

text \<open>
  Claim C8. For every feature dict, malformed ones included, \<open>predict\<close> returns a
  result and raises nothing. The body of its \<^verbatim>\<open>try\<close> raises exactly when one of the ten
  features does not become a float: a value that is no number (\<^verbatim>\<open>TypeError\<close>) or an
  \<^verbatim>\<open>int\<close> too large for a float (\<^verbatim>\<open>OverflowError\<close>). Then the result is the neutral
  fallback: risk score 50, probability 0.5, confidence 0.5, no feature importance, and the
  error as a field of the result. Otherwise \<open>predict\<close> returns what the body returns.
\<close>

theorem predict_never_raises:
  "\<not> isl (predict rt features)
   \<and> isl (predict_body rt features) = (\<not> usable_features features)
   \<and> predict rt features =
       (if isl (predict_body rt features)
        then Inr \<lparr>risk_score = 50, probability = 0.5, confidence = 0.5,
               feature_importance = [], model_version = None,
               error = Some (projl (predict_body rt features))\<rparr>
        else predict_body rt features)"
proof -
  have "isl (predict_body rt features) = (\<not> usable_features features)"
    using predict_body_unusable [of features rt] predict_body_usable [of features rt]
    by (cases "usable_features features") auto
  then show ?thesis
    by (cases "predict_body rt features") (simp_all add: predict_def fallback_def)
qed

text \<open>
  On the malformed features the body raises \<^verbatim>\<open>TypeError\<close> at the first division and
  \<open>predict\<close> returns the fallback.
\<close>

theorem predict_never_raises_witness:
  "\<not> usable_features malformed_features
   \<and> predict_body exact_runtime malformed_features = Inl TypeError
   \<and> predict exact_runtime malformed_features =
       Inr \<lparr>risk_score = 50, probability = 0.5, confidence = 0.5,
          feature_importance = [], model_version = None, error = Some TypeError\<rparr>"
proof -
  have b: "predict_body exact_runtime malformed_features = Inl TypeError"
    by (simp add: predict_body_def normalize_features_def malformed_features_def)
  show ?thesis
    using b predict_never_raises [of exact_runtime malformed_features] by simp
qed

text \<open>
  On a blacklist count of \<open>2 ^ 1024\<close> the division by 5.0 raises \<^verbatim>\<open>OverflowError\<close>, at
  every runtime, and \<open>predict\<close> returns the fallback with that error.
\<close>

lemma predict_overflow:
  "predict_body rt overflowing_features = Inl OverflowError
   \<and> predict rt overflowing_features =
       Inr \<lparr>risk_score = 50, probability = 0.5, confidence = 0.5,
          feature_importance = [], model_version = None, error = Some OverflowError\<rparr>"
proof -
  have n: "normalize_features rt overflowing_features = Inl OverflowError"
    unfolding normalize_features_def overflowing_features_def py_truediv_def
    using float_limit_bounds by simp
  have b: "predict_body rt overflowing_features = Inl OverflowError"
    by (simp add: predict_body_def n)
  then show ?thesis
    by (simp add: predict_def fallback_def)
qed

text \<open>
  On the empty feature dict every feature takes its default and the body returns: without
  rounding, the score before the sigmoid is 0.19 and the confidence is 0.25.
\<close>

lemma predict_empty_features:
  "\<exists>importance. predict exact_runtime Map.empty =
     Inr \<lparr>risk_score = sigmoid exact_runtime 0.19 * 100,
       probability = sigmoid exact_runtime 0.19, confidence = 0.25,
       feature_importance = importance, model_version = Some ''1.0-simulated'',
       error = None\<rparr>"
proof -
  have u: "usable_features Map.empty"
    using float_limit_bounds(1) by (simp add: usable_features_def)
  have n: "normalize_features exact_runtime Map.empty = Inr (Map.empty
       (''domain_age_days'' \<mapsto> PFloat 0, ''has_https'' \<mapsto> PInt 0, ''ssl_valid'' \<mapsto> PInt 0,
        ''dns_resolved'' \<mapsto> PInt 0, ''has_whois_privacy'' \<mapsto> PInt 0,
        ''blacklist_count'' \<mapsto> PFloat 0, ''hosting_reputation_score'' \<mapsto> PFloat 0.5,
        ''content_scam_score'' \<mapsto> PFloat 0.5, ''domain_length'' \<mapsto> PFloat 0,
        ''content_risk_keywords'' \<mapsto> PFloat 0))"
    using float_limit_bounds(1)
    by (simp add: normalize_features_def py_truediv_def exact_runtime_def)
  have s: "calculate_score exact_runtime (projr (normalize_features exact_runtime Map.empty))
      = Inr 0.19"
    unfolding n using float_limit_bounds(1)
    by (simp add: calculate_score_def weights_def py_mul_def exact_runtime_def)
  have c: "confidence_spec (projr (normalize_features exact_runtime Map.empty)) = 0.25"
    unfolding n
    by (simp add: confidence_spec_def data_availability_def feature_def exceeds_def below_def
        Let_def)
  obtain nf score importance where p: "normalize_features exact_runtime Map.empty = Inr nf"
    "calculate_score exact_runtime nf = Inr score"
    "predict_body exact_runtime Map.empty = Inr \<lparr>risk_score = fl exact_runtime (sigmoid exact_runtime score * 100),
          probability = sigmoid exact_runtime score, confidence = confidence_spec nf,
          feature_importance = importance,
          model_version = Some ''1.0-simulated'', error = None\<rparr>"
    using predict_body_usable [OF u, of exact_runtime] by blast
  have nf: "nf = projr (normalize_features exact_runtime Map.empty)"
    using p(1) by simp
  have sc: "score = 0.19"
    using p(2) s unfolding nf by simp
  have f: "fl exact_runtime x = x" for x
    by (simp add: exact_runtime_def)
  show ?thesis
    unfolding predict_def p(3) sc f nf c by simp
qed

end
